theory Spec2Isabelle
  imports Complex_Main
begin

section \<open>Numbers\<close>

text \<open>
  A JavaScript number is an IEEE 754 double. Screen and image coordinates (pointer
  positions, image sizes, bounding boxes) are modelled as rationals with exact
  arithmetic: they are integers of moderate size wherever they come from pointer
  positions and drawn rectangles, and on those the double arithmetic of the source is
  exact. The fraction arrays of a grid, and what is computed from them, are not of that
  kind. They are values of \<open>jsnum\<close>: a finite number, an infinity or \<open>NaN\<close>, and
  every arithmetic result on them is rounded to the nearest double, ties to even, with
  overflow to an infinity. The sign of a zero is not modelled: every zero is \<open>+0\<close>,
  and a hole of a sparse array reads as \<open>NaN\<close>, which is what arithmetic on
  \<open>undefined\<close> gives.
\<close>

datatype jsnum = Fin rat | PosInf | NegInf | NaN

text \<open>The conversion of screen coordinates divides by the scale; at scale zero its result is not a finite number.\<close>

datatype failure = NotFinite

text \<open>
  \<open>log2floor n a\<close> is the integer part of the binary logarithm of a positive \<open>a\<close>,
  found in at most \<open>n\<close> halvings or doublings.
\<close>

fun log2floor :: "nat \<Rightarrow> rat \<Rightarrow> int" where
  "log2floor 0 a = 0"
| "log2floor (Suc n) a =
     (if 2 \<le> a then log2floor n (a / 2) + 1
      else if a < 1 then log2floor n (a * 2) - 1
      else 0)"

definition pow2 :: "int \<Rightarrow> rat" where
  "pow2 k = (if 0 \<le> k then 2 ^ nat k else 1 / 2 ^ nat (- k))"

text \<open>Rounding to the nearest integer, a tie to the even one.\<close>

definition roundHalfEven :: "rat \<Rightarrow> int" where
  "roundHalfEven q =
     (let f = \<lfloor>q\<rfloor>; r = q - of_int f
      in if r < 1 / 2 then f else if 1 / 2 < r then f + 1 else if even f then f else f + 1)"

text \<open>
  The double nearest to a rational: 53 significant bits, the exponent at least
  \<open>-1022\<close> (gradual underflow). The 2200 steps of \<open>log2floor\<close> cover every exponent a
  double can have: a larger magnitude overflows and a smaller one rounds to zero whatever
  the exact exponent is.
\<close>

definition roundToDouble :: "rat \<Rightarrow> rat" where
  "roundToDouble x =
     (if x = 0 then 0
      else
        (let e = max (log2floor 2200 \<bar>x\<bar>) (- 1022);
             ulp = pow2 (e - 52)
         in sgn x * of_int (roundHalfEven (\<bar>x\<bar> / ulp)) * ulp))"

text \<open>The result of an arithmetic operation whose exact value is \<open>x\<close>.\<close>

definition toDouble :: "rat \<Rightarrow> jsnum" where
  "toDouble x =
     (let v = roundToDouble x
      in if pow2 1024 \<le> v then PosInf else if v \<le> - pow2 1024 then NegInf else Fin v)"

fun jneg :: "jsnum \<Rightarrow> jsnum" where
  "jneg (Fin x) = Fin (- x)"
| "jneg PosInf = NegInf"
| "jneg NegInf = PosInf"
| "jneg NaN = NaN"

text \<open>\<open>a + b\<close>.\<close>

fun jadd :: "jsnum \<Rightarrow> jsnum \<Rightarrow> jsnum" where
  "jadd (Fin x) (Fin y) = toDouble (x + y)"
| "jadd NaN b = NaN"
| "jadd a NaN = NaN"
| "jadd PosInf NegInf = NaN"
| "jadd NegInf PosInf = NaN"
| "jadd PosInf b = PosInf"
| "jadd a PosInf = PosInf"
| "jadd NegInf b = NegInf"
| "jadd a NegInf = NegInf"

text \<open>\<open>a - b\<close>.\<close>

definition jsub :: "jsnum \<Rightarrow> jsnum \<Rightarrow> jsnum" where
  "jsub a b = jadd a (jneg b)"

text \<open>\<open>a * b\<close>.\<close>

fun jmul :: "jsnum \<Rightarrow> jsnum \<Rightarrow> jsnum" where
  "jmul (Fin x) (Fin y) = toDouble (x * y)"
| "jmul NaN b = NaN"
| "jmul a NaN = NaN"
| "jmul (Fin x) b = (if x = 0 then NaN else if 0 < x then b else jneg b)"
| "jmul a (Fin y) = (if y = 0 then NaN else if 0 < y then a else jneg a)"
| "jmul PosInf b = b"
| "jmul NegInf b = jneg b"

text \<open>\<open>a / b\<close>.\<close>

fun jdiv :: "jsnum \<Rightarrow> jsnum \<Rightarrow> jsnum" where
  "jdiv (Fin x) (Fin y) =
     (if y = 0 then (if x = 0 then NaN else if 0 < x then PosInf else NegInf)
      else toDouble (x / y))"
| "jdiv NaN b = NaN"
| "jdiv a NaN = NaN"
| "jdiv (Fin x) b = Fin 0"
| "jdiv a (Fin y) = (if 0 \<le> y then a else jneg a)"
| "jdiv a b = NaN"

text \<open>\<open>Math.max(a, b)\<close>.\<close>

fun jmax :: "jsnum \<Rightarrow> jsnum \<Rightarrow> jsnum" where
  "jmax (Fin x) (Fin y) = Fin (max x y)"
| "jmax NaN b = NaN"
| "jmax a NaN = NaN"
| "jmax PosInf b = PosInf"
| "jmax a PosInf = PosInf"
| "jmax NegInf b = b"
| "jmax a NegInf = a"

text \<open>\<open>Math.abs(a)\<close>.\<close>

fun jabs :: "jsnum \<Rightarrow> jsnum" where
  "jabs (Fin x) = Fin \<bar>x\<bar>"
| "jabs PosInf = PosInf"
| "jabs NegInf = PosInf"
| "jabs NaN = NaN"

text \<open>\<open>a < b\<close>: false when either side is \<open>NaN\<close>.\<close>

fun jless :: "jsnum \<Rightarrow> jsnum \<Rightarrow> bool" where
  "jless (Fin x) (Fin y) = (x < y)"
| "jless NaN b = False"
| "jless a NaN = False"
| "jless a NegInf = False"
| "jless PosInf b = False"
| "jless a PosInf = True"
| "jless NegInf b = True"

text \<open>\<open>xs[k]\<close>: an index past the end reads \<open>undefined\<close>.\<close>

definition nthOrNaN :: "jsnum list \<Rightarrow> nat \<Rightarrow> jsnum" where
  "nthOrNaN xs k = (if k < length xs then xs ! k else NaN)"

text \<open>\<open>xs[k] = v\<close>: an index past the end extends the array.\<close>

definition writeAt :: "jsnum list \<Rightarrow> nat \<Rightarrow> jsnum \<Rightarrow> jsnum list" where
  "writeAt xs k v =
     (if k < length xs then xs[k := v] else xs @ replicate (k - length xs) NaN @ [v])"

section \<open>Data model\<close>

text \<open>
  The annotator's geometry engine lives in the canvas component (its pointer handlers),
  the grid utilities and the count inputs of the element list.
\<close>

text \<open>\<open>BBox\<close>: the source's fields \<open>x\<close>, \<open>y\<close>, \<open>width\<close>, \<open>height\<close>.\<close>

record bbox =
  xpos :: rat
  ypos :: rat
  width :: rat
  height :: rat

text \<open>\<open>IconDefinition\<close> as the canvas builds it.\<close>

record icon =
  iconElementId :: string
  centerX :: rat
  centerY :: rat

text \<open>
  \<open>UIElement\<close>. An optional field is an \<open>option\<close> (\<open>None\<close> is \<open>undefined\<close>). The
  fields the geometry code never reads (colours, alignment, mask and loading settings)
  are one opaque value \<open>presentation\<close>.
\<close>

record 'p element =
  eid :: string
  etype :: string
  bbox :: bbox
  etext :: "string option"
  rows :: "nat option"
  cols :: "nat option"
  rowHeights :: "jsnum list option"
  colWidths :: "jsnum list option"
  parentId :: "string option"
  icons :: "icon list option"
  presentation :: "'p option"

text \<open>\<open>el.rows || 1\<close>: \<open>undefined\<close> and \<open>0\<close> are falsy.\<close>

definition orOne :: "nat option \<Rightarrow> nat" where
  "orOne n = (case n of None \<Rightarrow> 1 | Some k \<Rightarrow> if k = 0 then 1 else k)"

text \<open>\<open>xs.reduce((a, b) => a + b, 0)\<close>.\<close>

definition reduceSum :: "jsnum list \<Rightarrow> jsnum" where
  "reduceSum xs = foldl jadd (Fin 0) xs"

text \<open>
  \<open>arr && arr.length === n ? [...arr] : Array(n).fill(1 / n)\<close>: the explicit fractions
  when their length matches the count, uniform fractions otherwise.
\<close>

definition fractionsOrUniform :: "jsnum list option \<Rightarrow> nat \<Rightarrow> jsnum list" where
  "fractionsOrUniform arr n =
     (case arr of
        Some fs \<Rightarrow> if length fs = n then fs else replicate n (jdiv (Fin 1) (Fin (of_nat n)))
      | None \<Rightarrow> replicate n (jdiv (Fin 1) (Fin (of_nat n))))"

section \<open>Grid utilities\<close>

text \<open>
  The loop \<open>cumX += fractions[c] * extent; push(cumX)\<close> for \<open>c < count - 1\<close> of
  \<open>getGridPositions\<close>.
\<close>

fun cumulativePositions :: "jsnum \<Rightarrow> rat \<Rightarrow> jsnum list \<Rightarrow> jsnum list" where
  "cumulativePositions cum extent [] = []"
| "cumulativePositions cum extent (f # fs) =
     jadd cum (jmul f (Fin extent)) #
       cumulativePositions (jadd cum (jmul f (Fin extent))) extent fs"

text \<open>The other loop: \<open>push(origin + c * (extent / count))\<close> for \<open>1 \<le> c < count\<close>.\<close>

definition uniformPositions :: "nat \<Rightarrow> rat \<Rightarrow> rat \<Rightarrow> jsnum list" where
  "uniformPositions n origin extent =
     map (\<lambda>c. jadd (Fin origin) (jmul (Fin (of_nat c)) (jdiv (Fin extent) (Fin (of_nat n)))))
         [1..<n]"

definition dividerPositions :: "jsnum list option \<Rightarrow> nat \<Rightarrow> rat \<Rightarrow> rat \<Rightarrow> jsnum list" where
  "dividerPositions arr n origin extent =
     (case arr of
        Some fs \<Rightarrow>
          if length fs = n then cumulativePositions (Fin origin) extent (take (n - 1) fs)
          else uniformPositions n origin extent
      | None \<Rightarrow> uniformPositions n origin extent)"

record gridPositions =
  colPositions :: "jsnum list"
  rowPositions :: "jsnum list"
  colBounds :: "jsnum list"
  rowBounds :: "jsnum list"

definition getGridPositions :: "'p element \<Rightarrow> gridPositions" where
  "getGridPositions el =
     (let b = bbox el;
          cps = dividerPositions (colWidths el) (orOne (cols el)) (xpos b) (width b);
          rps = dividerPositions (rowHeights el) (orOne (rows el)) (ypos b) (height b)
      in \<lparr> colPositions = cps, rowPositions = rps,
           colBounds = [Fin (xpos b)] @ cps @ [Fin (xpos b + width b)],
           rowBounds = [Fin (ypos b)] @ rps @ [Fin (ypos b + height b)] \<rparr>)"

section \<open>The count inputs of the element list\<close>

text \<open>
  The split/merge rule of the rows and cols inputs. \<open>old\<close> always has \<open>oldCount\<close>
  entries here (it comes from \<open>fractionsOrUniform\<close>), so \<open>old[oldCount - 1]\<close> is in range.
\<close>

definition splitMerge :: "nat \<Rightarrow> nat \<Rightarrow> jsnum list \<Rightarrow> jsnum list" where
  "splitMerge oldCount num old =
     (if num > oldCount then
        (let addCount = num - oldCount;
             lastSize = old ! (oldCount - 1);
             splitSize = jdiv lastSize (Fin (of_nat (addCount + 1)))
         in butlast old @ replicate (addCount + 1) splitSize)
      else if num < oldCount then
        (let removed = drop (num - 1) old;
             removedSum = reduceSum removed
         in take (num - 1) old @ [removedSum])
      else old)"

text \<open>What the user typed, as \<open>parseInt\<close> reads it.\<close>

datatype typed = EmptyText | NotANumber | Parsed int

text \<open>
  The panel shows one \<open>Cells (N)\<close> input for a selected element of a list type, a
  \<open>Rows\<close> and a \<open>Cols\<close> input for one of a grid type, and no count input otherwise.
\<close>

datatype countInput = RowsInput | ColsInput | CellsInput

definition isListType :: "'p element \<Rightarrow> bool" where
  "isListType el = (etype el = ''dropdown'' \<or> etype el = ''listbox'')"

definition isGridType :: "'p element \<Rightarrow> bool" where
  "isGridType el = (etype el = ''grid'' \<or> etype el = ''icon'')"

definition shownInputs :: "'p element \<Rightarrow> countInput list" where
  "shownInputs el =
     (if isListType el then [CellsInput]
      else if isGridType el then [RowsInput, ColsInput]
      else [])"

text \<open>
  \<open>onChange\<close> of the rows input: the selected element after \<open>updateElement\<close> of the
  annotation state merged the update into it with \<open>{...el, ...updates}\<close> (the element
  itself when no update is sent). The elements with another id are left as they are.
\<close>

definition rowsOnChange :: "typed \<Rightarrow> 'p element \<Rightarrow> 'p element" where
  "rowsOnChange v el =
     (case v of
        EmptyText \<Rightarrow> el\<lparr>rows := None, rowHeights := None\<rparr>
      | NotANumber \<Rightarrow> el
      | Parsed num \<Rightarrow>
          if num \<ge> 1 \<and> num \<le> 50 then
            (let oldRows = orOne (rows el);
                 oldHeights = fractionsOrUniform (rowHeights el) oldRows
             in el\<lparr>rows := Some (nat num),
                    rowHeights := Some (splitMerge oldRows (nat num) oldHeights)\<rparr>)
          else el)"

definition colsOnChange :: "typed \<Rightarrow> 'p element \<Rightarrow> 'p element" where
  "colsOnChange v el =
     (case v of
        EmptyText \<Rightarrow> el\<lparr>cols := None, colWidths := None\<rparr>
      | NotANumber \<Rightarrow> el
      | Parsed num \<Rightarrow>
          if num \<ge> 1 \<and> num \<le> 20 then
            (let oldCols = orOne (cols el);
                 oldWidths = fractionsOrUniform (colWidths el) oldCols
             in el\<lparr>cols := Some (nat num),
                    colWidths := Some (splitMerge oldCols (nat num) oldWidths)\<rparr>)
          else el)"

text \<open>\<open>onChange\<close> of the \<open>Cells (N)\<close> input: the update names \<open>rows\<close> and \<open>cols\<close> only.\<close>

definition cellsOnChange :: "typed \<Rightarrow> 'p element \<Rightarrow> 'p element" where
  "cellsOnChange v el =
     (case v of
        EmptyText \<Rightarrow> el\<lparr>rows := None, cols := Some 1\<rparr>
      | NotANumber \<Rightarrow> el
      | Parsed num \<Rightarrow>
          if num \<ge> 1 \<and> num \<le> 100 then el\<lparr>rows := Some (nat num), cols := Some 1\<rparr>
          else el)"

text \<open>\<open>onBlur\<close> of the three inputs: a text that is no number, or a number below 1, resets the count.\<close>

definition invalidCount :: "typed \<Rightarrow> bool" where
  "invalidCount v = (case v of Parsed num \<Rightarrow> num < 1 | _ \<Rightarrow> True)"

definition rowsOnBlur :: "typed \<Rightarrow> 'p element \<Rightarrow> 'p element" where
  "rowsOnBlur v el = (if invalidCount v then el\<lparr>rows := Some 1, rowHeights := None\<rparr> else el)"

definition colsOnBlur :: "typed \<Rightarrow> 'p element \<Rightarrow> 'p element" where
  "colsOnBlur v el = (if invalidCount v then el\<lparr>cols := Some 1, colWidths := None\<rparr> else el)"

definition cellsOnBlur :: "typed \<Rightarrow> 'p element \<Rightarrow> 'p element" where
  "cellsOnBlur v el = (if invalidCount v then el\<lparr>rows := Some 1, cols := Some 1\<rparr> else el)"

section \<open>The canvas: configuration, state and events\<close>

datatype axis = Row | Col

datatype edge = EdgeN | EdgeS | EdgeE | EdgeW | EdgeNE | EdgeNW | EdgeSE | EdgeSW

datatype drawMode = Single | Grid

text \<open>What \<open>detectDivider\<close> returns: the source's \<open>{elementId, type, index}\<close>.\<close>

record dividerHit =
  elementId :: string
  dividerType :: axis
  dividerIndex :: nat

text \<open>The \<open>draggingDivider\<close> state: the hit and \<open>startPos\<close>.\<close>

record dividerDrag = dividerHit +
  startPos :: rat

text \<open>The \<open>resizeStart\<close> and \<open>cropResizeStart\<close> state: \<open>{x, y, bbox}\<close>.\<close>

record gestureStart =
  startX :: rat
  startY :: rat
  startBBox :: bbox

text \<open>
  The canvas DOM node: the origin of its bounding client rectangle and, when a 2d context
  is available, the hexadecimal colour of the rendered pixel at a canvas position.
\<close>

record canvasDom =
  rectLeft :: rat
  rectTop :: rat
  context2d :: "(rat \<Rightarrow> rat \<Rightarrow> string) option"

text \<open>
  The props the component only reads, with the view values its effects maintain
  (\<open>baseScale\<close>, \<open>offset\<close>) and the two DOM nodes: the canvas, and the client width and
  height of its container. A callback prop is \<open>True\<close> when the owner passed it.
\<close>

record config =
  imageUrl :: "string option"
  imageSize :: "(rat \<times> rat) option"
  currentType :: string
  drawMode :: drawMode
  gridRows :: nat
  gridCols :: nat
  isColorSampling :: bool
  onColorSampled :: bool
  zoomLevel :: rat
  isCropMode :: bool
  onCropRectChange :: bool
  isIconPlacementMode :: bool
  onIconPlaced :: bool
  onElementCreated :: bool
  baseScale :: rat
  offset :: "rat \<times> rat"
  canvasRef :: "canvasDom option"
  containerSize :: "(rat \<times> rat) option"

text \<open>What the component reports through callbacks that do not come back as props.\<close>

datatype 'p emitted =
    ColorSampled string
  | IconPlaced string icon
  | ElementCreated "'p element"

text \<open>
  The component state, together with the three owner values the component replaces
  through \<open>onElementsChange\<close>, \<open>onSelectElement\<close> and \<open>onCropRectChange\<close>.
\<close>

record 'p canvas =
  elements :: "'p element list"
  selectedElementId :: "string option"
  cropRect :: "bbox option"
  isDrawing :: bool
  startPoint :: "(rat \<times> rat) option"
  currentRect :: "bbox option"
  pan :: "rat \<times> rat"
  isPanning :: bool
  panStart :: "rat \<times> rat"
  resizeEdge :: "edge option"
  resizeStart :: "gestureStart option"
  hoverEdge :: "edge option"
  spaceHeld :: bool
  draggingDivider :: "dividerDrag option"
  hoverDivider :: "dividerHit option"
  cropResizeEdge :: "edge option"
  cropResizeStart :: "gestureStart option"
  hoverCropEdge :: "edge option"
  emitted :: "'p emitted list"

text \<open>
  A mouse event, with the two values the handlers draw from the environment while they
  run: \<open>Date.now()\<close> and the random suffix of a new icon id.
\<close>

record mouseEvent =
  clientX :: rat
  clientY :: rat
  button :: nat
  altKey :: bool
  now :: nat
  randomSuffix :: string

text \<open>A string or \<open>null\<close> used as a condition: \<open>null\<close> and the empty string are falsy.\<close>

definition truthy :: "string option \<Rightarrow> bool" where
  "truthy v = (case v of None \<Rightarrow> False | Some t \<Rightarrow> t \<noteq> [])"

definition EDGE_THRESHOLD :: rat where
  "EDGE_THRESHOLD = 8"

definition DIVIDER_THRESHOLD :: rat where
  "DIVIDER_THRESHOLD = 6"

definition scale :: "config \<Rightarrow> rat" where
  "scale cfg = baseScale cfg * zoomLevel cfg"

text \<open>
  The effect \<open>// Calculate offset based on zoom and pan\<close>, which runs after a render in
  which \<open>imageSize\<close>, \<open>scale\<close> or \<open>pan\<close> was replaced: the view the next event sees.
\<close>

definition offsetEffect :: "config \<Rightarrow> 'p canvas \<Rightarrow> config" where
  "offsetEffect cfg s =
     (case imageSize cfg of
        None \<Rightarrow> cfg
      | Some img \<Rightarrow>
          (case containerSize cfg of
             None \<Rightarrow> cfg
           | Some client \<Rightarrow>
               cfg\<lparr>offset := ((fst client - fst img * scale cfg) / 2 + fst (pan s),
                               (snd client - snd img * scale cfg) / 2 + snd (pan s))\<rparr>))"

section \<open>Coordinate conversion and hit testing\<close>

text \<open>\<open>Math.round\<close> rounds a half up, as \<open>round\<close> does.\<close>

definition screenToImage :: "config \<Rightarrow> rat \<Rightarrow> rat \<Rightarrow> failure + (rat \<times> rat)" where
  "screenToImage cfg screenX screenY =
     (case canvasRef cfg of
        None \<Rightarrow> Inr (0, 0)
      | Some cv \<Rightarrow>
          if scale cfg = 0 then Inl NotFinite
          else
            (let ix = (screenX - rectLeft cv - fst (offset cfg)) / scale cfg;
                 iy = (screenY - rectTop cv - snd (offset cfg)) / scale cfg
             in Inr (of_int (round ix), of_int (round iy))))"

text \<open>A \<open>for\<close> loop over an array that returns at the first index passing the test.\<close>

fun firstIndex :: "(jsnum \<Rightarrow> bool) \<Rightarrow> jsnum list \<Rightarrow> nat \<Rightarrow> nat option" where
  "firstIndex t [] i = None"
| "firstIndex t (a # as) i = (if t a then Some i else firstIndex t as (Suc i))"

text \<open>\<open>Math.abs(p - position) < threshold\<close>, for a divider position.\<close>

definition nearPosition :: "rat \<Rightarrow> rat \<Rightarrow> jsnum \<Rightarrow> bool" where
  "nearPosition threshold p position = jless (jabs (jsub (Fin p) position)) (Fin threshold)"

text \<open>The body of the loop over the elements in \<open>detectDivider\<close>.\<close>

definition dividerOfElement :: "rat \<Rightarrow> rat \<times> rat \<Rightarrow> 'p element \<Rightarrow> dividerHit option" where
  "dividerOfElement threshold pos el =
     (let b = bbox el in
      if orOne (rows el) \<le> 1 \<and> orOne (cols el) \<le> 1 then None
      else if fst pos < xpos b - threshold \<or> fst pos > xpos b + width b + threshold then None
      else if snd pos < ypos b - threshold \<or> snd pos > ypos b + height b + threshold then None
      else
        (case firstIndex
                (\<lambda>cp. nearPosition threshold (fst pos) cp \<and>
                       snd pos \<ge> ypos b \<and> snd pos \<le> ypos b + height b)
                (colPositions (getGridPositions el)) 0 of
           Some c \<Rightarrow> Some \<lparr> elementId = eid el, dividerType = Col, dividerIndex = c \<rparr>
         | None \<Rightarrow>
             (case firstIndex
                     (\<lambda>rp. nearPosition threshold (snd pos) rp \<and>
                            fst pos \<ge> xpos b \<and> fst pos \<le> xpos b + width b)
                     (rowPositions (getGridPositions el)) 0 of
                Some r \<Rightarrow> Some \<lparr> elementId = eid el, dividerType = Row, dividerIndex = r \<rparr>
              | None \<Rightarrow> None)))"

fun detectDividerIn :: "rat \<Rightarrow> rat \<times> rat \<Rightarrow> 'p element list \<Rightarrow> dividerHit option" where
  "detectDividerIn threshold pos [] = None"
| "detectDividerIn threshold pos (el # els) =
     (case dividerOfElement threshold pos el of
        Some h \<Rightarrow> Some h
      | None \<Rightarrow> detectDividerIn threshold pos els)"

definition detectDivider :: "config \<Rightarrow> 'p element list \<Rightarrow> rat \<times> rat \<Rightarrow> failure + dividerHit option" where
  "detectDivider cfg els pos =
     (if scale cfg = 0 then Inl NotFinite
      else Inr (detectDividerIn (DIVIDER_THRESHOLD / scale cfg) pos els))"

text \<open>The corner and edge tests shared, word for word, by \<open>detectEdge\<close> and \<open>detectCropEdge\<close>.\<close>

definition edgeOfBBox :: "rat \<Rightarrow> rat \<times> rat \<Rightarrow> bbox \<Rightarrow> edge option" where
  "edgeOfBBox threshold pos b =
     (let right = xpos b + width b;
          bottom = ypos b + height b;
          nearLeft = \<bar>fst pos - xpos b\<bar> < threshold;
          nearRight = \<bar>fst pos - right\<bar> < threshold;
          nearTop = \<bar>snd pos - ypos b\<bar> < threshold;
          nearBottom = \<bar>snd pos - bottom\<bar> < threshold;
          withinX = fst pos \<ge> xpos b - threshold \<and> fst pos \<le> right + threshold;
          withinY = snd pos \<ge> ypos b - threshold \<and> snd pos \<le> bottom + threshold
      in if nearTop \<and> nearLeft \<and> withinX \<and> withinY then Some EdgeNW
         else if nearBottom \<and> nearRight \<and> withinX \<and> withinY then Some EdgeSE
         else if nearTop \<and> nearRight \<and> withinX \<and> withinY then Some EdgeNE
         else if nearBottom \<and> nearLeft \<and> withinX \<and> withinY then Some EdgeSW
         else if nearLeft \<and> withinY then Some EdgeW
         else if nearRight \<and> withinY then Some EdgeE
         else if nearTop \<and> withinX then Some EdgeN
         else if nearBottom \<and> withinX then Some EdgeS
         else None)"

definition detectCropEdge :: "config \<Rightarrow> bbox option \<Rightarrow> rat \<times> rat \<Rightarrow> failure + edge option" where
  "detectCropEdge cfg crop pos =
     (case crop of
        None \<Rightarrow> Inr None
      | Some b \<Rightarrow>
          if scale cfg = 0 then Inl NotFinite
          else Inr (edgeOfBBox (EDGE_THRESHOLD / scale cfg) pos b))"

definition detectEdge :: "config \<Rightarrow> 'p element list \<Rightarrow> string option \<Rightarrow> rat \<times> rat \<Rightarrow> failure + edge option" where
  "detectEdge cfg els sel pos =
     (if \<not> truthy sel then Inr None
      else
        (case find (\<lambda>e. Some (eid e) = sel) els of
           None \<Rightarrow> Inr None
         | Some el \<Rightarrow>
             if scale cfg = 0 then Inl NotFinite
             else Inr (edgeOfBBox (EDGE_THRESHOLD / scale cfg) pos (bbox el))))"

section \<open>Pointer down\<close>

text \<open>Decimal digits of a number, as a template string prints it.\<close>

fun showNat :: "nat \<Rightarrow> string" where
  "showNat n =
     (if n < 10 then [''0123456789'' ! n]
      else showNat (n div 10) @ [''0123456789'' ! (n mod 10)])"

declare showNat.simps [simp del]

definition isIconContainer :: "'p element \<Rightarrow> bool" where
  "isIconContainer el =
     (etype el = ''iconlist'' \<or> etype el = ''toolbar'' \<or> etype el = ''menubar'')"

text \<open>\<open>pos\<close> lies in the closed rectangle of the bbox.\<close>

definition insideBBox :: "rat \<times> rat \<Rightarrow> bbox \<Rightarrow> bool" where
  "insideBBox pos b =
     (fst pos \<ge> xpos b \<and> fst pos \<le> xpos b + width b \<and>
      snd pos \<ge> ypos b \<and> snd pos \<le> ypos b + height b)"

text \<open>The last statements of \<open>handleMouseDown\<close>: start drawing.\<close>

definition startDrawing :: "rat \<times> rat \<Rightarrow> 'p canvas \<Rightarrow> 'p canvas" where
  "startDrawing pos s = s\<lparr>isDrawing := True, startPoint := Some pos\<rparr>"

text \<open>\<open>handleMouseDown\<close> from the colour sampling test on.\<close>

definition pointerDownModes :: "config \<Rightarrow> mouseEvent \<Rightarrow> rat \<times> rat \<Rightarrow> 'p canvas \<Rightarrow> failure + 'p canvas" where
  "pointerDownModes cfg e pos s =
     (if isColorSampling cfg \<and> onColorSampled cfg then
        (case canvasRef cfg of
           None \<Rightarrow> Inr s
         | Some cv \<Rightarrow>
             (case context2d cv of
                None \<Rightarrow> Inr s
              | Some pixel \<Rightarrow>
                  Inr (s\<lparr>emitted := emitted s @
                        [ColorSampled (pixel (fst pos * scale cfg + fst (offset cfg))
                                             (snd pos * scale cfg + snd (offset cfg)))]\<rparr>)))
      else if isCropMode cfg then
        (case detectCropEdge cfg (cropRect s) pos of
           Inl f \<Rightarrow> Inl f
         | Inr cropEdge \<Rightarrow>
             (case cropEdge of
                None \<Rightarrow> Inr (startDrawing pos s)
              | Some ce \<Rightarrow>
                  (case cropRect s of
                     None \<Rightarrow> Inr (startDrawing pos s)
                   | Some cr \<Rightarrow>
                       Inr (s\<lparr>cropResizeEdge := Some ce,
                              cropResizeStart := Some \<lparr> startX = fst pos, startY = snd pos,
                                                         startBBox = cr \<rparr>\<rparr>))))
      else
        (case (if isIconPlacementMode cfg \<and> truthy (selectedElementId s) \<and> onIconPlaced cfg
               then find (\<lambda>el. Some (eid el) = selectedElementId s) (elements s) else None) of
           Some selectedEl \<Rightarrow>
             if isIconContainer selectedEl then
               (if insideBBox pos (bbox selectedEl) then
                  Inr (s\<lparr>emitted := emitted s @
                        [IconPlaced (eid selectedEl)
                           \<lparr> iconElementId = ''icon_'' @ showNat (now e) @ ''_'' @ randomSuffix e,
                             centerX = fst pos - xpos (bbox selectedEl),
                             centerY = snd pos - ypos (bbox selectedEl) \<rparr>]\<rparr>)
                else Inr s)
             else Inr (startDrawing pos s)
         | None \<Rightarrow> Inr (startDrawing pos s)))"

definition handleMouseDown :: "config \<Rightarrow> mouseEvent \<Rightarrow> 'p canvas \<Rightarrow> failure + 'p canvas" where
  "handleMouseDown cfg e s =
     (if \<not> truthy (imageUrl cfg) then Inr s
      else if button e = 1 \<or> altKey e \<or> spaceHeld s then
        Inr (s\<lparr>isPanning := True,
               panStart := (clientX e - fst (pan s), clientY e - snd (pan s))\<rparr>)
      else
        (case screenToImage cfg (clientX e) (clientY e) of
           Inl f \<Rightarrow> Inl f
         | Inr pos \<Rightarrow>
             (case detectDivider cfg (elements s) pos of
                Inl f \<Rightarrow> Inl f
              | Inr (Some d) \<Rightarrow>
                  Inr (s\<lparr>draggingDivider := Some
                         \<lparr> elementId = elementId d, dividerType = dividerType d,
                           dividerIndex = dividerIndex d,
                           startPos = (if dividerType d = Col then fst pos else snd pos) \<rparr>\<rparr>)
              | Inr None \<Rightarrow>
                  (case detectEdge cfg (elements s) (selectedElementId s) pos of
                     Inl f \<Rightarrow> Inl f
                   | Inr edge \<Rightarrow>
                       (case (if edge \<noteq> None \<and> truthy (selectedElementId s)
                              then find (\<lambda>el. Some (eid el) = selectedElementId s) (elements s)
                              else None) of
                          Some el \<Rightarrow>
                            Inr (s\<lparr>resizeEdge := edge,
                                   resizeStart := Some \<lparr> startX = fst pos, startY = snd pos,
                                                         startBBox = bbox el \<rparr>\<rparr>)
                        | None \<Rightarrow> pointerDownModes cfg e pos s)))))"

section \<open>Selection by click\<close>

text \<open>
  The \<open>forEach\<close> of \<open>handleClick\<close>: the accumulator is \<open>clickedElement\<close> with
  \<open>smallestArea\<close>; \<open>None\<close> is the initial \<open>null\<close> with \<open>Infinity\<close>.
\<close>

fun clickScan :: "rat \<times> rat \<Rightarrow> 'p element list \<Rightarrow> ('p element \<times> rat) option \<Rightarrow> ('p element \<times> rat) option" where
  "clickScan pos [] acc = acc"
| "clickScan pos (el # els) acc =
     clickScan pos els
       (if insideBBox pos (bbox el) \<and>
           (case acc of None \<Rightarrow> True
            | Some (c, smallestArea) \<Rightarrow> width (bbox el) * height (bbox el) < smallestArea)
        then Some (el, width (bbox el) * height (bbox el))
        else acc)"

definition handleClick :: "config \<Rightarrow> mouseEvent \<Rightarrow> 'p canvas \<Rightarrow> failure + 'p canvas" where
  "handleClick cfg e s =
     (if \<not> truthy (imageUrl cfg) then Inr s
      else if isIconPlacementMode cfg then Inr s
      else
        (case screenToImage cfg (clientX e) (clientY e) of
           Inl f \<Rightarrow> Inl f
         | Inr pos \<Rightarrow>
             (case clickScan pos (elements s) None of
                Some (clickedElement, a) \<Rightarrow> Inr (s\<lparr>selectedElementId := Some (eid clickedElement)\<rparr>)
              | None \<Rightarrow> Inr (s\<lparr>selectedElementId := None\<rparr>))))"

section \<open>Pointer move\<close>

text \<open>
  The divider arithmetic of \<open>handleMouseMove\<close>. The source writes it twice, for columns
  (\<open>pos.x\<close>, \<open>x\<close>, \<open>width\<close>, \<open>colWidths\<close>) and for rows (\<open>pos.y\<close>, \<open>y\<close>, \<open>height\<close>,
  \<open>rowHeights\<close>), with the same statements; here \<open>p\<close>, \<open>origin\<close>, \<open>extent\<close> and
  \<open>current\<close> stand for them. The clamped position is coordinate arithmetic; from the
  division by the extent on, the values are doubles. A zero extent makes \<open>10 / extent\<close>
  infinite, and an index past the array reads \<open>undefined\<close> and writes past the end.
\<close>

definition dragFractions :: "jsnum list \<Rightarrow> rat \<Rightarrow> rat \<Rightarrow> rat \<Rightarrow> nat \<Rightarrow> jsnum list" where
  "dragFractions current origin extent p i =
     (let newPos = max (origin + 10) (min p (origin + extent - 10));
          newFraction = jdiv (Fin (newPos - origin)) (Fin extent);
          cumBefore = foldl jadd (Fin 0) (map (nthOrNaN current) [0..<i]);
          minSize = jdiv (Fin 10) (Fin extent);
          newLeft = jmax minSize (jsub newFraction cumBefore);
          oldCombined = jadd (nthOrNaN current i) (nthOrNaN current (i + 1));
          newRight = jmax minSize (jsub oldCombined newLeft);
          updated = writeAt (writeAt current i newLeft) (i + 1) newRight;
          total = reduceSum updated
      in map (\<lambda>w. jdiv w total) updated)"

text \<open>The \<open>draggingDivider\<close> branch.\<close>

definition dividerMove :: "dividerDrag \<Rightarrow> rat \<times> rat \<Rightarrow> 'p canvas \<Rightarrow> 'p canvas" where
  "dividerMove d pos s =
     (case find (\<lambda>el. eid el = elementId d) (elements s) of
        None \<Rightarrow> s
      | Some el \<Rightarrow>
          (if dividerType d = Col then
             (let normalizedWidths =
                    dragFractions (fractionsOrUniform (colWidths el) (orOne (cols el)))
                      (xpos (bbox el)) (width (bbox el)) (fst pos) (dividerIndex d)
              in s\<lparr>elements := map (\<lambda>el. if eid el = elementId d
                                            then el\<lparr>colWidths := Some normalizedWidths\<rparr> else el)
                                     (elements s)\<rparr>)
           else
             (let normalizedHeights =
                    dragFractions (fractionsOrUniform (rowHeights el) (orOne (rows el)))
                      (ypos (bbox el)) (height (bbox el)) (snd pos) (dividerIndex d)
              in s\<lparr>elements := map (\<lambda>el. if eid el = elementId d
                                            then el\<lparr>rowHeights := Some normalizedHeights\<rparr> else el)
                                     (elements s)\<rparr>)))"

text \<open>The \<open>switch\<close> over the edge code, shared by the resize and crop resize branches.\<close>

fun resizeBBox :: "edge \<Rightarrow> bbox \<Rightarrow> rat \<Rightarrow> rat \<Rightarrow> bbox" where
  "resizeBBox EdgeE orig dx dy = orig\<lparr>width := max 10 (width orig + dx)\<rparr>"
| "resizeBBox EdgeW orig dx dy =
     orig\<lparr>xpos := xpos orig + dx, width := max 10 (width orig - dx)\<rparr>"
| "resizeBBox EdgeS orig dx dy = orig\<lparr>height := max 10 (height orig + dy)\<rparr>"
| "resizeBBox EdgeN orig dx dy =
     orig\<lparr>ypos := ypos orig + dy, height := max 10 (height orig - dy)\<rparr>"
| "resizeBBox EdgeSE orig dx dy =
     orig\<lparr>width := max 10 (width orig + dx), height := max 10 (height orig + dy)\<rparr>"
| "resizeBBox EdgeNW orig dx dy =
     orig\<lparr>xpos := xpos orig + dx, ypos := ypos orig + dy,
          width := max 10 (width orig - dx), height := max 10 (height orig - dy)\<rparr>"
| "resizeBBox EdgeNE orig dx dy =
     orig\<lparr>ypos := ypos orig + dy, width := max 10 (width orig + dx),
          height := max 10 (height orig - dy)\<rparr>"
| "resizeBBox EdgeSW orig dx dy =
     orig\<lparr>xpos := xpos orig + dx, width := max 10 (width orig - dx),
          height := max 10 (height orig + dy)\<rparr>"

text \<open>The four assignments under \<open>// Clamp to image bounds\<close>, in their order.\<close>

definition clampToImage :: "rat \<Rightarrow> rat \<Rightarrow> bbox \<Rightarrow> bbox" where
  "clampToImage imgW imgH b =
     (let b1 = b\<lparr>xpos := max 0 (min (xpos b) (imgW - 10))\<rparr>;
          b2 = b1\<lparr>ypos := max 0 (min (ypos b1) (imgH - 10))\<rparr>;
          b3 = b2\<lparr>width := min (width b2) (imgW - xpos b2)\<rparr>;
          b4 = b3\<lparr>height := min (height b3) (imgH - ypos b3)\<rparr>
      in b4)"

text \<open>The new bbox of the resize and crop resize branches.\<close>

definition resizedBBox :: "edge \<Rightarrow> gestureStart \<Rightarrow> rat \<times> rat \<Rightarrow> rat \<times> rat \<Rightarrow> bbox" where
  "resizedBBox ed start img pos =
     (let dx = fst pos - startX start;
          dy = snd pos - startY start
      in clampToImage (fst img) (snd img) (resizeBBox ed (startBBox start) dx dy))"

text \<open>The \<open>onElementsChange\<close> of the resize branch.\<close>

definition resizeMove :: "edge \<Rightarrow> gestureStart \<Rightarrow> string \<Rightarrow> rat \<times> rat \<Rightarrow> rat \<times> rat \<Rightarrow> 'p canvas \<Rightarrow> 'p canvas" where
  "resizeMove ed start sel img pos s =
     s\<lparr>elements := map (\<lambda>el. if eid el = sel
                               then el\<lparr>bbox := resizedBBox ed start img pos\<rparr> else el)
                        (elements s)\<rparr>"

text \<open>The hover updates and the candidate rectangle: \<open>handleMouseMove\<close> after its gesture branches.\<close>

definition hoverElements :: "config \<Rightarrow> rat \<times> rat \<Rightarrow> 'p canvas \<Rightarrow> failure + 'p canvas" where
  "hoverElements cfg pos s =
     (if \<not> isDrawing s \<and> \<not> isColorSampling cfg \<and> \<not> isCropMode cfg then
        (case detectDivider cfg (elements s) pos of
           Inl f \<Rightarrow> Inl f
         | Inr (Some d) \<Rightarrow> Inr (s\<lparr>hoverDivider := Some d, hoverEdge := None\<rparr>)
         | Inr None \<Rightarrow>
             (case detectEdge cfg (elements s) (selectedElementId s) pos of
                Inl f \<Rightarrow> Inl f
              | Inr edge \<Rightarrow> Inr (s\<lparr>hoverDivider := None, hoverEdge := edge\<rparr>)))
      else Inr s)"

definition hoverCrop :: "config \<Rightarrow> rat \<times> rat \<Rightarrow> 'p canvas \<Rightarrow> failure + 'p canvas" where
  "hoverCrop cfg pos s =
     (if isCropMode cfg \<and> \<not> isDrawing s \<and> cropResizeEdge s = None then
        (case detectCropEdge cfg (cropRect s) pos of
           Inl f \<Rightarrow> Inl f
         | Inr cropEdge \<Rightarrow> Inr (s\<lparr>hoverCropEdge := cropEdge\<rparr>))
      else Inr s)"

definition drawRect :: "rat \<times> rat \<Rightarrow> rat \<times> rat \<Rightarrow> rat \<times> rat \<Rightarrow> bbox" where
  "drawRect start img pos =
     (let clampedX = max 0 (min (fst pos) (fst img));
          clampedY = max 0 (min (snd pos) (snd img))
      in \<lparr> xpos = min (fst start) clampedX, ypos = min (snd start) clampedY,
           width = \<bar>clampedX - fst start\<bar>, height = \<bar>clampedY - snd start\<bar> \<rparr>)"

definition drawMove :: "config \<Rightarrow> rat \<times> rat \<Rightarrow> 'p canvas \<Rightarrow> 'p canvas" where
  "drawMove cfg pos s =
     (if \<not> isDrawing s then s
      else
        (case startPoint s of
           None \<Rightarrow> s
         | Some start \<Rightarrow>
             (case imageSize cfg of
                None \<Rightarrow> s
              | Some img \<Rightarrow>
                  if isCropMode cfg \<and> onCropRectChange cfg
                  then s\<lparr>cropRect := Some (drawRect start img pos)\<rparr>
                  else s\<lparr>currentRect := Some (drawRect start img pos)\<rparr>)))"

text \<open>
  The condition \<open>resizeEdge && resizeStart && selectedElementId && imageSize\<close> with the
  four values it guards, and the like condition of the crop resize branch.
\<close>

definition resizeGesture :: "config \<Rightarrow> 'p canvas \<Rightarrow> (edge \<times> gestureStart \<times> string \<times> (rat \<times> rat)) option" where
  "resizeGesture cfg s =
     (case resizeEdge s of
        None \<Rightarrow> None
      | Some ed \<Rightarrow>
          (case resizeStart s of
             None \<Rightarrow> None
           | Some start \<Rightarrow>
               (case selectedElementId s of
                  None \<Rightarrow> None
                | Some sel \<Rightarrow>
                    if sel = [] then None
                    else
                      (case imageSize cfg of
                         None \<Rightarrow> None
                       | Some img \<Rightarrow> Some (ed, start, sel, img)))))"

definition cropResizeGesture :: "config \<Rightarrow> 'p canvas \<Rightarrow> (edge \<times> gestureStart \<times> (rat \<times> rat)) option" where
  "cropResizeGesture cfg s =
     (case cropResizeEdge s of
        None \<Rightarrow> None
      | Some ed \<Rightarrow>
          (case cropResizeStart s of
             None \<Rightarrow> None
           | Some start \<Rightarrow>
               if \<not> onCropRectChange cfg then None
               else
                 (case imageSize cfg of
                    None \<Rightarrow> None
                  | Some img \<Rightarrow> Some (ed, start, img))))"

text \<open>\<open>handleMouseMove\<close> after the panning branch, at the converted position.\<close>

definition moveAt :: "config \<Rightarrow> rat \<times> rat \<Rightarrow> 'p canvas \<Rightarrow> failure + 'p canvas" where
  "moveAt cfg pos s =
     (case draggingDivider s of
        Some d \<Rightarrow> Inr (dividerMove d pos s)
      | None \<Rightarrow>
          (case resizeGesture cfg s of
             Some (ed, start, sel, img) \<Rightarrow> Inr (resizeMove ed start sel img pos s)
           | None \<Rightarrow>
               (case cropResizeGesture cfg s of
                  Some (ed, start, img) \<Rightarrow>
                    Inr (s\<lparr>cropRect := Some (resizedBBox ed start img pos)\<rparr>)
                | None \<Rightarrow>
                    (case hoverElements cfg pos s of
                       Inl f \<Rightarrow> Inl f
                     | Inr s1 \<Rightarrow>
                         (case hoverCrop cfg pos s1 of
                            Inl f \<Rightarrow> Inl f
                          | Inr s2 \<Rightarrow> Inr (drawMove cfg pos s2))))))"

definition handleMouseMove :: "config \<Rightarrow> mouseEvent \<Rightarrow> 'p canvas \<Rightarrow> failure + 'p canvas" where
  "handleMouseMove cfg e s =
     (if isPanning s then
        Inr (s\<lparr>pan := (clientX e - fst (panStart s), clientY e - snd (panStart s))\<rparr>)
      else
        (case screenToImage cfg (clientX e) (clientY e) of
           Inl f \<Rightarrow> Inl f
         | Inr pos \<Rightarrow> moveAt cfg pos s))"

section \<open>Pointer up and element creation\<close>

text \<open>A new element literal: every field the literal does not name is \<open>undefined\<close>.\<close>

definition newElement :: "string \<Rightarrow> string \<Rightarrow> bbox \<Rightarrow> 'p element" where
  "newElement i t b =
     \<lparr> eid = i, etype = t, bbox = b, etext = None, rows = None, cols = None,
       rowHeights = None, colWidths = None, parentId = None, icons = None,
       presentation = None \<rparr>"

text \<open>
  One cell of the nested loops that fill \<open>cellElements\<close> for a listbox. The cell sizes
  are quotients that need not be integers, so every arithmetic result is rounded to the
  nearest double before \<open>Math.round\<close>. Both counts are positive where a cell is built,
  and image coordinates are far below the magnitude \<open>2^1024\<close> at which a double
  overflows, so every value here is finite.
\<close>

definition cellElement :: "config \<Rightarrow> string \<Rightarrow> bbox \<Rightarrow> nat \<Rightarrow> nat \<Rightarrow> 'p element" where
  "cellElement cfg containerId rect r c =
     (let cellWidth = roundToDouble (width rect / of_nat (gridCols cfg));
          cellHeight = roundToDouble (height rect / of_nat (gridRows cfg))
      in (newElement (containerId @ ''_r'' @ showNat r @ ''_c'' @ showNat c) ''label''
            \<lparr> xpos = of_int (round (roundToDouble (xpos rect + roundToDouble (of_nat c * cellWidth)))),
              ypos = of_int (round (roundToDouble (ypos rect + roundToDouble (of_nat r * cellHeight)))),
              width = of_int (round cellWidth),
              height = of_int (round cellHeight) \<rparr>)
         \<lparr> etext := Some (''item_'' @ showNat (r * gridCols cfg + c + 1)),
           parentId := Some containerId \<rparr>)"

definition cellElements :: "config \<Rightarrow> string \<Rightarrow> bbox \<Rightarrow> 'p element list" where
  "cellElements cfg containerId rect =
     concat (map (\<lambda>r. map (\<lambda>c. cellElement cfg containerId rect r c) [0..<gridCols cfg])
                 [0..<gridRows cfg])"

text \<open>
  \<open>handleMouseUp\<close> once the rectangle is known to be a drag: the creation branches.
  With a grid count of zero the loops of the listbox branch build no cell, and the
  container is appended alone.
\<close>

definition createFromRect :: "config \<Rightarrow> mouseEvent \<Rightarrow> bbox \<Rightarrow> 'p canvas \<Rightarrow> 'p canvas" where
  "createFromRect cfg e rect s =
     (let done = (\<lambda>t. t\<lparr>isDrawing := False, currentRect := None, startPoint := None\<rparr>);
          newId = ''el_'' @ showNat (now e)
      in if drawMode cfg = Grid \<and> (gridRows cfg > 1 \<or> gridCols cfg > 1) then
           (if currentType cfg = ''listbox'' then
              (let containerElement =
                     (newElement newId (currentType cfg) rect)
                       \<lparr> etext := Some (currentType cfg), rows := Some (gridRows cfg),
                         cols := Some (gridCols cfg) \<rparr>
               in done (s\<lparr>elements := elements s @ [containerElement] @ cellElements cfg newId rect,
                           selectedElementId := Some newId\<rparr>))
            else
              (let created = (newElement newId (currentType cfg) rect)
                               \<lparr> rows := Some (gridRows cfg), cols := Some (gridCols cfg) \<rparr>
               in done (s\<lparr>elements := elements s @ [created],
                           selectedElementId := Some newId,
                           emitted := emitted s @
                             (if onElementCreated cfg then [ElementCreated created] else [])\<rparr>)))
         else
           (let created = newElement newId (currentType cfg) rect
            in done (s\<lparr>elements := elements s @ [created],
                        selectedElementId := Some newId,
                        emitted := emitted s @
                          (if onElementCreated cfg then [ElementCreated created] else [])\<rparr>)))"

text \<open>The test of \<open>handleMouseUp\<close> that turns a release into a click.\<close>

definition isClick :: "bbox option \<Rightarrow> bool" where
  "isClick r = (case r of None \<Rightarrow> True | Some c \<Rightarrow> width c < 10 \<and> height c < 10)"

definition handleMouseUp :: "config \<Rightarrow> mouseEvent \<Rightarrow> 'p canvas \<Rightarrow> failure + 'p canvas" where
  "handleMouseUp cfg e s =
     (if isPanning s then Inr (s\<lparr>isPanning := False\<rparr>)
      else if draggingDivider s \<noteq> None then Inr (s\<lparr>draggingDivider := None\<rparr>)
      else if resizeEdge s \<noteq> None then Inr (s\<lparr>resizeEdge := None, resizeStart := None\<rparr>)
      else if cropResizeEdge s \<noteq> None then
        Inr (s\<lparr>cropResizeEdge := None, cropResizeStart := None\<rparr>)
      else if \<not> isDrawing s then Inr s
      else if isCropMode cfg then Inr (s\<lparr>isDrawing := False, startPoint := None\<rparr>)
      else if isClick (currentRect s) then
        handleClick cfg e (s\<lparr>isDrawing := False, currentRect := None, startPoint := None\<rparr>)
      else
        (case currentRect s of
           None \<Rightarrow> Inr s
         | Some rect \<Rightarrow> Inr (createFromRect cfg e rect s)))"

text \<open>\<open>onMouseLeave\<close> of the canvas.\<close>

definition handleMouseLeave :: "'p canvas \<Rightarrow> 'p canvas" where
  "handleMouseLeave s =
     s\<lparr>isDrawing := False, currentRect := None, startPoint := None, isPanning := False,
       resizeEdge := None, resizeStart := None, hoverEdge := None, draggingDivider := None,
       hoverDivider := None, cropResizeEdge := None, cropResizeStart := None,
       hoverCropEdge := None\<rparr>"

section \<open>Gestures\<close>

datatype pointer = Down mouseEvent | Move mouseEvent | Up mouseEvent | Leave

fun step :: "config \<Rightarrow> pointer \<Rightarrow> 'p canvas \<Rightarrow> failure + 'p canvas" where
  "step cfg (Down e) s = handleMouseDown cfg e s"
| "step cfg (Move e) s = handleMouseMove cfg e s"
| "step cfg (Up e) s = handleMouseUp cfg e s"
| "step cfg Leave s = Inr (handleMouseLeave s)"

text \<open>
  The only view value a pointer handler replaces is \<open>pan\<close>, in a move while panning;
  the offset effect then runs before the next event.
\<close>

fun writesPan :: "pointer \<Rightarrow> 'p canvas \<Rightarrow> bool" where
  "writesPan (Move e) s = isPanning s"
| "writesPan ev s = False"

fun run :: "config \<Rightarrow> pointer list \<Rightarrow> 'p canvas \<Rightarrow> failure + 'p canvas" where
  "run cfg [] s = Inr s"
| "run cfg (ev # evs) s =
     (case step cfg ev s of
        Inl f \<Rightarrow> Inl f
      | Inr s1 \<Rightarrow> run (if writesPan ev s then offsetEffect cfg s1 else cfg) evs s1)"

section \<open>Vocabulary of the properties\<close>

text \<open>
  The entries sum to 1 within \<open>1e-6\<close>; the sum is the one \<open>reduce\<close> computes.
\<close>

definition sumsToOne :: "jsnum list \<Rightarrow> bool" where
  "sumsToOne fs =
     (case reduceSum fs of Fin t \<Rightarrow> \<bar>t - 1\<bar> \<le> 1 / 1000000 | _ \<Rightarrow> False)"

text \<open>The edge codes whose \<open>switch\<close> case assigns the width, and those that assign the height.\<close>

definition adjustsWidth :: "edge \<Rightarrow> bool" where
  "adjustsWidth ed = (ed \<in> {EdgeE, EdgeW, EdgeSE, EdgeNW, EdgeNE, EdgeSW})"

definition adjustsHeight :: "edge \<Rightarrow> bool" where
  "adjustsHeight ed = (ed \<in> {EdgeS, EdgeN, EdgeSE, EdgeNW, EdgeNE, EdgeSW})"

text \<open>The bounds a bbox keeps inside an image, without the minimum size.\<close>

definition insideImage :: "rat \<times> rat \<Rightarrow> bbox \<Rightarrow> bool" where
  "insideImage img b =
     (xpos b \<ge> 0 \<and> ypos b \<ge> 0 \<and> xpos b + width b \<le> fst img \<and> ypos b + height b \<le> snd img)"




section \<open>Example configurations and states\<close>

definition exampleConfig :: config where
  "exampleConfig =
     \<lparr> imageUrl = Some ''shot.png'', imageSize = Some (1000, 800), currentType = ''button'',
       drawMode = Single, gridRows = 1, gridCols = 1, isColorSampling = False,
       onColorSampled = True, zoomLevel = 1, isCropMode = False, onCropRectChange = True,
       isIconPlacementMode = False, onIconPlaced = True, onElementCreated = True,
       baseScale = 1, offset = (0, 0),
       canvasRef = Some \<lparr> rectLeft = 0, rectTop = 0, context2d = None \<rparr>,
       containerSize = Some (1000, 800) \<rparr>"

text \<open>No gesture in progress.\<close>

definition idleCanvas :: "unit element list \<Rightarrow> string option \<Rightarrow> unit canvas" where
  "idleCanvas els sel =
     \<lparr> elements = els, selectedElementId = sel, cropRect = None, isDrawing = False,
       startPoint = None, currentRect = None, pan = (0, 0), isPanning = False,
       panStart = (0, 0), resizeEdge = None, resizeStart = None, hoverEdge = None,
       spaceHeld = False, draggingDivider = None, hoverDivider = None,
       cropResizeEdge = None, cropResizeStart = None, hoverCropEdge = None, emitted = [] \<rparr>"

text \<open>A left-button event at a screen position.\<close>

definition mouseAt :: "rat \<Rightarrow> rat \<Rightarrow> mouseEvent" where
  "mouseAt sx sy = \<lparr> clientX = sx, clientY = sy, button = 0, altKey = False, now = 7,
                     randomSuffix = ''abc'' \<rparr>"

definition box :: "rat \<Rightarrow> rat \<Rightarrow> rat \<Rightarrow> rat \<Rightarrow> bbox" where
  "box bx by' w h = \<lparr> xpos = bx, ypos = by', width = w, height = h \<rparr>"

text \<open>A grid of the given counts and explicit fractions.\<close>

definition gridElement :: "string \<Rightarrow> bbox \<Rightarrow> nat \<Rightarrow> nat \<Rightarrow> jsnum list option \<Rightarrow> jsnum list option \<Rightarrow> unit element" where
  "gridElement i b r c hs ws =
     (newElement i ''grid'' b)
       \<lparr> rows := Some r, cols := Some c, rowHeights := hs, colWidths := ws \<rparr>"

text \<open>Grid draw mode with two columns.\<close>

definition gridConfig :: config where
  "gridConfig = exampleConfig\<lparr>currentType := ''grid'', drawMode := Grid, gridCols := 2\<rparr>"

text \<open>A divider drag in progress.\<close>

definition draggingCanvas :: "unit element list \<Rightarrow> string \<Rightarrow> axis \<Rightarrow> nat \<Rightarrow> rat \<Rightarrow> unit canvas" where
  "draggingCanvas els i a k p =
     (idleCanvas els None)
       \<lparr>draggingDivider := Some \<lparr> elementId = i, dividerType = a, dividerIndex = k, startPos = p \<rparr>\<rparr>"

text \<open>The same image at zoom level 4, in a container that shows all of it.\<close>

definition zoom4Config :: config where
  "zoom4Config = exampleConfig\<lparr>zoomLevel := 4, containerSize := Some (4000, 3200)\<rparr>"

text \<open>A resize in progress.\<close>

definition resizingCanvas :: "unit element list \<Rightarrow> string \<Rightarrow> edge \<Rightarrow> gestureStart \<Rightarrow> unit canvas" where
  "resizingCanvas els sel ed start =
     (idleCanvas els (Some sel))\<lparr>resizeEdge := Some ed, resizeStart := Some start\<rparr>"

text \<open>A labelled button.\<close>

definition labelled :: "string \<Rightarrow> bbox \<Rightarrow> string \<Rightarrow> unit element" where
  "labelled i b t = (newElement i ''button'' b)\<lparr>etext := Some t, parentId := Some ''panel''\<rparr>"

text \<open>A draw in progress with its candidate rectangle.\<close>

definition drawingCanvas :: "unit element list \<Rightarrow> rat \<times> rat \<Rightarrow> bbox \<Rightarrow> unit canvas" where
  "drawingCanvas els start rect =
     (idleCanvas els None)\<lparr>isDrawing := True, startPoint := Some start, currentRect := Some rect\<rparr>"

text \<open>The same image at zoom level 2, in a container that shows all of it.\<close>

definition zoom2Config :: config where
  "zoom2Config = exampleConfig\<lparr>zoomLevel := 2, containerSize := Some (2000, 1600)\<rparr>"



text \<open>Icon placement mode, and crop mode.\<close>

definition iconConfig :: config where
  "iconConfig = exampleConfig\<lparr>isIconPlacementMode := True\<rparr>"


text \<open>A listbox container with the given counts and row fractions.\<close>

definition listElement :: "string \<Rightarrow> bbox \<Rightarrow> nat \<Rightarrow> nat \<Rightarrow> jsnum list option \<Rightarrow> unit element" where
  "listElement i b r c hs =
     (newElement i ''listbox'' b)
       \<lparr> etext := Some ''listbox'', rows := Some r, cols := Some c, rowHeights := hs \<rparr>"

text \<open>Grid draw mode for a listbox of two rows, with the column count at zero.\<close>

definition listConfig :: config where
  "listConfig =
     exampleConfig\<lparr>currentType := ''listbox'', drawMode := Grid, gridRows := 2, gridCols := 0\<rparr>"

section \<open>Evaluating the model\<close>

lemma log2floor_numeral:
  "log2floor (numeral k) a =
     (if 2 \<le> a then log2floor (pred_numeral k) (a / 2) + 1
      else if a < 1 then log2floor (pred_numeral k) (a * 2) - 1
      else 0)"
  by (simp add: numeral_eq_Suc)

lemma floor_numeral_div: "\<lfloor>numeral a / numeral b :: rat\<rfloor> = numeral a div numeral b"
  using floor_divide_of_int_eq[of "numeral a" "numeral b", where ?'a = rat] by simp

lemma round_numeral_div:
  "round (numeral a / numeral b :: rat) = (2 * numeral a + numeral b) div (2 * numeral b)"
proof -
  have "(numeral a / numeral b :: rat) + 1 / 2 =
        of_int (2 * numeral a + numeral b) / of_int (2 * numeral b)"
    by (simp add: field_simps)
  then show ?thesis
    unfolding round_def by (simp only: floor_divide_of_int_eq)
qed

lemma replicate_numeral: "replicate (numeral k) x = x # replicate (pred_numeral k) x"
  by (simp add: numeral_eq_Suc)

text \<open>The equations that evaluate the double arithmetic on concrete numbers.\<close>

lemmas double_eval = round_numeral_div replicate_numeral toDouble_def roundToDouble_def
  log2floor_numeral pow2_def roundHalfEven_def floor_numeral_div jsub_def nthOrNaN_def
  writeAt_def

text \<open>
  The rounding at known values: \<open>0.1\<close> is the double \<open>3602879701896397 / 2^55\<close>,
  \<open>0.1 + 0.2\<close> is \<open>0.30000000000000004\<close> and not the double \<open>0.3\<close>, \<open>0.3 + 0.5\<close> is
  the double \<open>0.8\<close> (a tie, rounded to even), and of the integers above \<open>2^53\<close> only
  the even ones are doubles.
\<close>

lemma double_examples:
  "toDouble (1 / 10) = Fin (3602879701896397 / 36028797018963968)"
  "jadd (toDouble (1 / 10)) (toDouble (1 / 5)) = Fin (1351079888211149 / 4503599627370496)"
  "toDouble (3 / 10) = Fin (5404319552844595 / 18014398509481984)"
  "jadd (toDouble (3 / 10)) (toDouble (1 / 2)) = toDouble (4 / 5)"
  "toDouble (81 / 128) = Fin (81 / 128)"
  "toDouble 9007199254740993 = Fin 9007199254740992"
  by (simp_all add: double_eval)

lemma orOne_pos: "0 < orOne c"
  by (simp add: orOne_def split: option.splits)

lemma showNat7: "showNat 7 = ''7''"
  by (simp add: showNat.simps)

text \<open>The equations that evaluate the handlers on concrete inputs.\<close>

lemmas eval_defs = exampleConfig_def idleCanvas_def mouseAt_def box_def handleMouseDown_def
      handleMouseMove_def moveAt_def resizeGesture_def cropResizeGesture_def handleMouseUp_def truthy_def screenToImage_def scale_def
      detectDivider_def detectEdge_def pointerDownModes_def startDrawing_def hoverElements_def
      hoverCrop_def drawMove_def drawRect_def isClick_def createFromRect_def showNat7 Let_def
      DIVIDER_THRESHOLD_def EDGE_THRESHOLD_def gridElement_def newElement_def dividerMove_def dragFractions_def
      fractionsOrUniform_def orOne_def reduceSum_def dividerOfElement_def getGridPositions_def
      dividerPositions_def uniformPositions_def nearPosition_def edgeOfBBox_def handleClick_def
      insideBBox_def upt_conv_Cons double_eval

text \<open>
  A listbox cell is rounded from the double product: in a rectangle 61 wide cut into 14
  columns, column 7 starts at \<open>7 * (61 / 14)\<close>, which is \<open>30.499999999999996\<close> as a
  double and 30 after \<open>Math.round\<close>.
\<close>

lemma cell_of_double_product:
  "bbox (cellElement (exampleConfig\<lparr>gridRows := 1, gridCols := 14\<rparr>) ''c''
           \<lparr> xpos = 0, ypos = 0, width = 61, height = 20 \<rparr> 0 7 :: unit element)
   = \<lparr> xpos = 30, ypos = 0, width = 4, height = 20 \<rparr>"
  by (simp add: cellElement_def eval_defs)

text \<open>
  The example views are the ones the offset effect computes, and a pan moves the offset:
  after a pan by 20 to the right, a press at screen 120 is at image 100.
\<close>

lemma example_views:
  "offsetEffect exampleConfig (idleCanvas els sel) = exampleConfig"
  "offsetEffect zoom2Config (idleCanvas els sel) = zoom2Config"
  "offsetEffect zoom4Config (idleCanvas els sel) = zoom4Config"
  by (simp_all add: offsetEffect_def zoom2Config_def zoom4Config_def exampleConfig_def
        idleCanvas_def scale_def)

lemma pan_moves_offset:
  "run exampleConfig
       [Down ((mouseAt 10 10)\<lparr>altKey := True\<rparr>), Move (mouseAt 30 10), Up (mouseAt 30 10),
        Down (mouseAt 120 100)]
       (idleCanvas [] None)
   = Inr ((idleCanvas [] None)
            \<lparr>pan := (20, 0), panStart := (10, 10), isDrawing := True,
              startPoint := Some (100, 100)\<rparr>)"
  by (simp add: offsetEffect_def eval_defs)

text \<open>
  A sum past the largest double is infinite: on the columns \<open>[2^1023, 2^1023]\<close> the
  divider arithmetic commits \<open>[0, NaN]\<close>.
\<close>

lemma drag_overflow:
  "dragFractions [Fin (2 ^ 1023), Fin (2 ^ 1023)] 0 100 50 0 = [Fin 0, NaN]"
  by (simp add: dragFractions_def reduceSum_def Let_def double_eval)

lemma splitMerge_explicit:
  assumes "length old = r" "0 < r"
  shows "splitMerge r n old =
     (if r < n then butlast old @ replicate (n - r + 1) (jdiv (last old) (Fin (of_nat (n - r + 1))))
      else if n < r then take (n - 1) old @ [reduceSum (drop (n - 1) old)]
      else old)"
proof -
  have "old \<noteq> []" using assms by auto
  then have "old ! (r - 1) = last old" using assms by (simp add: last_conv_nth)
  then show ?thesis
    by (simp add: splitMerge_def Let_def)
qed

section \<open>Changing the row or column count\<close>

text \<open>
  C3, as the code has it. When a count \<open>n\<close> in the accepted range is typed into the
  \<open>Rows\<close> (or \<open>Cols\<close>) input of the element panel, for an element whose explicit
  fractions \<open>hs\<close> have the length of the old count \<open>R\<close>: if \<open>n > R\<close> the last fraction
  is replaced by \<open>n - R + 1\<close> equal pieces, each the last fraction divided by
  \<open>n - R + 1\<close>, and the earlier entries stay; if \<open>n < R\<close> the entries from index
  \<open>n - 1\<close> on are replaced by their sum and the entries before stay. A count typed into
  the \<open>Cells (N)\<close> input, which the panel shows in their place for a dropdown or a
  listbox, sets the rows to it and the columns to 1, and leaves both fraction arrays as
  they are.
\<close>

theorem count_change_splits_or_merges_tail:
  "1 \<le> n \<Longrightarrow>
   (n \<le> 50 \<and> rowHeights el = Some hs \<and> length hs = orOne (rows el) \<longrightarrow>
      rows (rowsOnChange (Parsed n) el) = Some (nat n) \<and>
      rowHeights (rowsOnChange (Parsed n) el) = Some
        (if length hs < nat n
         then butlast hs @
              replicate (nat n - length hs + 1)
                (jdiv (last hs) (Fin (of_nat (nat n - length hs + 1))))
         else if nat n < length hs
         then take (nat n - 1) hs @ [reduceSum (drop (nat n - 1) hs)]
         else hs)) \<and>
   (n \<le> 20 \<and> colWidths el = Some ws \<and> length ws = orOne (cols el) \<longrightarrow>
      cols (colsOnChange (Parsed n) el) = Some (nat n) \<and>
      colWidths (colsOnChange (Parsed n) el) = Some
        (if length ws < nat n
         then butlast ws @
              replicate (nat n - length ws + 1)
                (jdiv (last ws) (Fin (of_nat (nat n - length ws + 1))))
         else if nat n < length ws
         then take (nat n - 1) ws @ [reduceSum (drop (nat n - 1) ws)]
         else ws)) \<and>
   (n \<le> 100 \<longrightarrow>
      rows (cellsOnChange (Parsed n) el) = Some (nat n) \<and>
      cols (cellsOnChange (Parsed n) el) = Some 1 \<and>
      rowHeights (cellsOnChange (Parsed n) el) = rowHeights el \<and>
      colWidths (cellsOnChange (Parsed n) el) = colWidths el)"
proof (intro conjI impI)
  assume n: "1 \<le> n" and h: "n \<le> 50 \<and> rowHeights el = Some hs \<and> length hs = orOne (rows el)"
  show "rows (rowsOnChange (Parsed n) el) = Some (nat n)"
    using n h by (simp add: rowsOnChange_def Let_def)
  have "splitMerge (orOne (rows el)) (nat n) hs =
      (if length hs < nat n
       then butlast hs @
            replicate (nat n - length hs + 1)
              (jdiv (last hs) (Fin (of_nat (nat n - length hs + 1))))
       else if nat n < length hs
       then take (nat n - 1) hs @ [reduceSum (drop (nat n - 1) hs)]
       else hs)"
    using splitMerge_explicit[of hs "orOne (rows el)" "nat n"] h orOne_pos[of "rows el"] by simp
  then show "rowHeights (rowsOnChange (Parsed n) el) = Some
        (if length hs < nat n
         then butlast hs @
              replicate (nat n - length hs + 1)
                (jdiv (last hs) (Fin (of_nat (nat n - length hs + 1))))
         else if nat n < length hs
         then take (nat n - 1) hs @ [reduceSum (drop (nat n - 1) hs)]
         else hs)"
    using n h by (simp add: rowsOnChange_def Let_def fractionsOrUniform_def)
next
  assume n: "1 \<le> n" and h: "n \<le> 20 \<and> colWidths el = Some ws \<and> length ws = orOne (cols el)"
  show "cols (colsOnChange (Parsed n) el) = Some (nat n)"
    using n h by (simp add: colsOnChange_def Let_def)
  have "splitMerge (orOne (cols el)) (nat n) ws =
      (if length ws < nat n
       then butlast ws @
            replicate (nat n - length ws + 1)
              (jdiv (last ws) (Fin (of_nat (nat n - length ws + 1))))
       else if nat n < length ws
       then take (nat n - 1) ws @ [reduceSum (drop (nat n - 1) ws)]
       else ws)"
    using splitMerge_explicit[of ws "orOne (cols el)" "nat n"] h orOne_pos[of "cols el"] by simp
  then show "colWidths (colsOnChange (Parsed n) el) = Some
        (if length ws < nat n
         then butlast ws @
              replicate (nat n - length ws + 1)
                (jdiv (last ws) (Fin (of_nat (nat n - length ws + 1))))
         else if nat n < length ws
         then take (nat n - 1) ws @ [reduceSum (drop (nat n - 1) ws)]
         else ws)"
    using n h by (simp add: colsOnChange_def Let_def fractionsOrUniform_def)
next
  assume n: "1 \<le> n" and h: "n \<le> 100"
  show "rows (cellsOnChange (Parsed n) el) = Some (nat n)"
    using n h by (simp add: cellsOnChange_def)
  show "cols (cellsOnChange (Parsed n) el) = Some 1"
    using n h by (simp add: cellsOnChange_def)
  show "rowHeights (cellsOnChange (Parsed n) el) = rowHeights el"
    using n h by (simp add: cellsOnChange_def)
  show "colWidths (cellsOnChange (Parsed n) el) = colWidths el"
    using n h by (simp add: cellsOnChange_def)
qed

text \<open>
  The rule at the two scenarios of the specification, for rows and for columns:
  \<open>[0.5, 0.5]\<close> raised to 3 and \<open>[0.2, 0.3, 0.5]\<close> lowered to 2, each decimal being the
  double nearest to it; and a listbox of two rows with fractions \<open>[0.25, 0.75]\<close> set to
  four cells.
\<close>

theorem count_change_examples:
  "rowHeights (rowsOnChange (Parsed 3)
      (gridElement ''g'' (box 0 0 100 100) 2 1 (Some [Fin (1/2), Fin (1/2)]) None))
     = Some [Fin (1/2), Fin (1/4), Fin (1/4)] \<and>
   rowHeights (rowsOnChange (Parsed 2)
      (gridElement ''g'' (box 0 0 100 100) 3 1
         (Some [toDouble (1/5), toDouble (3/10), toDouble (1/2)]) None))
     = Some [toDouble (1/5), toDouble (4/5)] \<and>
   colWidths (colsOnChange (Parsed 3)
      (gridElement ''g'' (box 0 0 100 100) 1 2 None (Some [Fin (1/2), Fin (1/2)])))
     = Some [Fin (1/2), Fin (1/4), Fin (1/4)] \<and>
   colWidths (colsOnChange (Parsed 2)
      (gridElement ''g'' (box 0 0 100 100) 1 3 None
         (Some [toDouble (1/5), toDouble (3/10), toDouble (1/2)])))
     = Some [toDouble (1/5), toDouble (4/5)] \<and>
   rows (cellsOnChange (Parsed 4)
      (listElement ''l'' (box 0 0 100 100) 2 1 (Some [Fin (1/4), Fin (3/4)]))) = Some 4 \<and>
   rowHeights (cellsOnChange (Parsed 4)
      (listElement ''l'' (box 0 0 100 100) 2 1 (Some [Fin (1/4), Fin (3/4)])))
     = Some [Fin (1/4), Fin (3/4)]"
  using count_change_splits_or_merges_tail
          [of 3 "gridElement ''g'' (box 0 0 100 100) 2 1 (Some [Fin (1/2), Fin (1/2)]) None"
              "[Fin (1/2), Fin (1/2)]" "[]"]
        count_change_splits_or_merges_tail
          [of 2 "gridElement ''g'' (box 0 0 100 100) 3 1
                   (Some [toDouble (1/5), toDouble (3/10), toDouble (1/2)]) None"
              "[toDouble (1/5), toDouble (3/10), toDouble (1/2)]" "[]"]
        count_change_splits_or_merges_tail
          [of 3 "gridElement ''g'' (box 0 0 100 100) 1 2 None (Some [Fin (1/2), Fin (1/2)])"
              "[]" "[Fin (1/2), Fin (1/2)]"]
        count_change_splits_or_merges_tail
          [of 2 "gridElement ''g'' (box 0 0 100 100) 1 3 None
                   (Some [toDouble (1/5), toDouble (3/10), toDouble (1/2)])"
              "[]" "[toDouble (1/5), toDouble (3/10), toDouble (1/2)]"]
        count_change_splits_or_merges_tail
          [of 4 "listElement ''l'' (box 0 0 100 100) 2 1 (Some [Fin (1/4), Fin (3/4)])" "[]" "[]"]
  by (simp add: gridElement_def listElement_def newElement_def orOne_def reduceSum_def double_eval)

text \<open>
  The claimed rule fails where the count is changed through the \<open>Cells (N)\<close> input, the
  only count input the panel shows for a listbox: with explicit row fractions
  \<open>[0.5, 0.5]\<close> and the count raised from 2 to 3, the rows become 3 and the fractions
  stay \<open>[0.5, 0.5]\<close>; the last one is not split into \<open>[0.25, 0.25]\<close>.
\<close>

theorem count_change_cells_counterexample:
  "shownInputs (listElement ''l'' (box 0 0 100 100) 2 1 (Some [Fin (1/2), Fin (1/2)]))
     = [CellsInput] \<and>
   rows (cellsOnChange (Parsed 3)
      (listElement ''l'' (box 0 0 100 100) 2 1 (Some [Fin (1/2), Fin (1/2)]))) = Some 3 \<and>
   rowHeights (cellsOnChange (Parsed 3)
      (listElement ''l'' (box 0 0 100 100) 2 1 (Some [Fin (1/2), Fin (1/2)])))
     = Some [Fin (1/2), Fin (1/2)] \<and>
   rowHeights (cellsOnChange (Parsed 3)
      (listElement ''l'' (box 0 0 100 100) 2 1 (Some [Fin (1/2), Fin (1/2)])))
     \<noteq> Some [Fin (1/2), Fin (1/4), Fin (1/4)]"
  by (simp add: shownInputs_def isListType_def cellsOnChange_def listElement_def newElement_def)

section \<open>Drawing an element below the minimum size\<close>

text \<open>
  C10. A completed draw gesture from \<open>(100, 100)\<close> to \<open>(105, 150)\<close> appends an element
  whose bbox is 5 wide and 50 high: the release is a click only when both the width and
  the height of the rectangle are below 10, so a drawn element can be narrower (or
  lower) than the minimum size of 10.
\<close>

theorem draw_creates_undersized_element:
  "run exampleConfig [Down (mouseAt 100 100), Move (mouseAt 105 150), Up (mouseAt 105 150)]
       (idleCanvas [] None)
   = Inr ((idleCanvas
             [\<lparr> eid = ''el_7'', etype = ''button'',
                bbox = \<lparr> xpos = 100, ypos = 100, width = 5, height = 50 \<rparr>,
                etext = None, rows = None, cols = None, rowHeights = None, colWidths = None,
                parentId = None, icons = None, presentation = None \<rparr>]
             (Some ''el_7''))
           \<lparr> emitted :=
               [ElementCreated
                  \<lparr> eid = ''el_7'', etype = ''button'',
                    bbox = \<lparr> xpos = 100, ypos = 100, width = 5, height = 50 \<rparr>,
                    etext = None, rows = None, cols = None, rowHeights = None,
                    colWidths = None, parentId = None, icons = None,
                    presentation = None \<rparr>] \<rparr>) \<and>
   width \<lparr> xpos = 100, ypos = 100, width = 5, height = (50 :: rat) \<rparr> < 10 \<and>
   isClick (Some \<lparr> xpos = 100, ypos = 100, width = 5, height = 50 \<rparr>) = False \<and>
   isClick (Some \<lparr> xpos = 100, ypos = 100, width = 5, height = 9 \<rparr>) = True"
  by (simp add: eval_defs)

section \<open>Fraction arrays after a divider drag\<close>

text \<open>
  C1, where the code departs from it: a divider drag on an element whose extent along
  the dragged axis is zero. A vertical stroke in grid mode creates a grid of width 0 with
  two columns; its divider, at the stroke, can be grabbed; and the first move of that
  drag computes \<open>10 / 0\<close>, so that the array committed under the comment
  \<open>Normalize to ensure sum = 1\<close> is \<open>[NaN, NaN]\<close>: its length is the column count,
  and its sum is not within \<open>1e-6\<close> of 1.
\<close>

theorem zero_width_divider_drag:
  "run gridConfig [Down (mouseAt 100 100), Move (mouseAt 100 150), Up (mouseAt 100 150)]
       (idleCanvas [] None)
   = Inr ((idleCanvas [gridElement ''el_7'' (box 100 100 0 50) 1 2 None None] (Some ''el_7''))
           \<lparr> emitted := [ElementCreated (gridElement ''el_7'' (box 100 100 0 50) 1 2 None None)] \<rparr>) \<and>
   1 < orOne (cols (gridElement ''el_7'' (box 100 100 0 50) 1 2 None None)) \<and>
   run gridConfig [Down (mouseAt 100 100), Move (mouseAt 100 150), Up (mouseAt 100 150),
                   Down (mouseAt 100 120), Move (mouseAt 130 120)]
       (idleCanvas [] None)
   = Inr ((draggingCanvas
             [gridElement ''el_7'' (box 100 100 0 50) 1 2 None (Some [NaN, NaN])]
             ''el_7'' Col 0 100)
           \<lparr> selectedElementId := Some ''el_7'',
             emitted := [ElementCreated (gridElement ''el_7'' (box 100 100 0 50) 1 2 None None)] \<rparr>) \<and>
   length [NaN, NaN] = orOne (cols (gridElement ''el_7'' (box 100 100 0 50) 1 2 None None)) \<and>
   \<not> sumsToOne [NaN, NaN] \<and>
   sumsToOne (fractionsOrUniform None 2)"
  by (simp add: gridConfig_def draggingCanvas_def sumsToOne_def eval_defs)

section \<open>Resizing\<close>

lemma resizeBBox_width:
  "width (resizeBBox ed orig dx dy) =
     (if adjustsWidth ed then max 10 (width orig + (if ed \<in> {EdgeE, EdgeSE, EdgeNE} then dx else - dx))
      else width orig)"
  by (cases ed) (simp_all add: adjustsWidth_def)

lemma resizeBBox_height:
  "height (resizeBBox ed orig dx dy) =
     (if adjustsHeight ed then max 10 (height orig + (if ed \<in> {EdgeS, EdgeSE, EdgeSW} then dy else - dy))
      else height orig)"
  by (cases ed) (simp_all add: adjustsHeight_def)

lemma clampToImage_fields:
  "xpos (clampToImage imgW imgH b) = max 0 (min (xpos b) (imgW - 10))"
  "ypos (clampToImage imgW imgH b) = max 0 (min (ypos b) (imgH - 10))"
  "width (clampToImage imgW imgH b) = min (width b) (imgW - xpos (clampToImage imgW imgH b))"
  "height (clampToImage imgW imgH b) = min (height b) (imgH - ypos (clampToImage imgW imgH b))"
  by (simp_all add: clampToImage_def Let_def)

lemma clampToImage_inside:
  "10 \<le> imgW \<Longrightarrow> 10 \<le> imgH \<Longrightarrow> insideImage (imgW, imgH) (clampToImage imgW imgH b)"
proof -
  let ?c = "clampToImage imgW imgH b"
  assume "10 \<le> imgW" "10 \<le> imgH"
  have "width ?c \<le> imgW - xpos ?c" "height ?c \<le> imgH - ypos ?c"
    by (simp_all add: clampToImage_fields(3,4))
  moreover have "0 \<le> xpos ?c" "0 \<le> ypos ?c"
    by (simp_all add: clampToImage_fields(1,2))
  ultimately show ?thesis by (simp add: insideImage_def)
qed

lemma clampToImage_min_width:
  "10 \<le> imgW \<Longrightarrow> 10 \<le> width b \<Longrightarrow> 10 \<le> width (clampToImage imgW imgH b)"
proof -
  assume a: "10 \<le> imgW" "10 \<le> width b"
  have "xpos (clampToImage imgW imgH b) \<le> imgW - 10"
    using a(1) by (simp add: clampToImage_fields(1))
  then show ?thesis using a(2) by (simp add: clampToImage_fields(3))
qed

lemma clampToImage_min_height:
  "10 \<le> imgH \<Longrightarrow> 10 \<le> height b \<Longrightarrow> 10 \<le> height (clampToImage imgW imgH b)"
proof -
  assume a: "10 \<le> imgH" "10 \<le> height b"
  have "ypos (clampToImage imgW imgH b) \<le> imgH - 10"
    using a(1) by (simp add: clampToImage_fields(2))
  then show ?thesis using a(2) by (simp add: clampToImage_fields(4))
qed

lemma handleMouseMove_resizing:
  "\<not> isPanning s \<Longrightarrow> draggingDivider s = None \<Longrightarrow> resizeEdge s = Some ed \<Longrightarrow>
   resizeStart s = Some start \<Longrightarrow> selectedElementId s = Some sel \<Longrightarrow> sel \<noteq> [] \<Longrightarrow>
   imageSize cfg = Some img \<Longrightarrow> screenToImage cfg (clientX e) (clientY e) = Inr pos \<Longrightarrow>
   handleMouseMove cfg e s = Inr (resizeMove ed start sel img pos s)"
  by (simp add: handleMouseMove_def moveAt_def resizeGesture_def)

lemma resizeMove_target:
  assumes "el \<in> set (elements (resizeMove ed start sel img pos s))" "eid el = sel"
  shows "bbox el = resizedBBox ed start img pos"
proof -
  from assms(1) obtain x where x: "x \<in> set (elements s)"
    "el = (if eid x = sel then x\<lparr>bbox := resizedBBox ed start img pos\<rparr> else x)"
    unfolding resizeMove_def by (auto simp del: )
  show ?thesis
  proof (cases "eid x = sel")
    case True
    with x(2) show ?thesis by simp
  next
    case False
    with x(2) assms(2) show ?thesis by simp
  qed
qed

text \<open>
  C2, as the code has it. For an image of at least 10 units in each dimension, every
  resize pointer-move commits to the selected element a bbox with \<open>x \<ge> 0\<close>, \<open>y \<ge> 0\<close>,
  \<open>x + width \<le> imageWidth\<close> and \<open>y + height \<le> imageHeight\<close>; its width is at least 10
  when the dragged edge changes the width or the snapshot width is at least 10, and
  likewise its height. It is computed by clamping \<open>x\<close> into \<open>[0, imageWidth - 10]\<close> and
  \<open>y\<close> into \<open>[0, imageHeight - 10]\<close> first, then the width to
  \<open>min(width, imageWidth - x)\<close> and the height to \<open>min(height, imageHeight - y)\<close> with
  the clamped origin.
\<close>

theorem resize_commit_bounds:
  assumes "\<not> isPanning s" and "draggingDivider s = None"
    and "resizeEdge s = Some ed" and "resizeStart s = Some start"
    and "selectedElementId s = Some sel" and "sel \<noteq> []"
    and "imageSize cfg = Some img" and "10 \<le> fst img" and "10 \<le> snd img"
    and "screenToImage cfg (clientX e) (clientY e) = Inr pos"
  shows "\<exists>s'. handleMouseMove cfg e s = Inr s' \<and>
     (\<forall>el \<in> set (elements s'). eid el = sel \<longrightarrow>
        insideImage img (bbox el) \<and>
        (adjustsWidth ed \<or> 10 \<le> width (startBBox start) \<longrightarrow> 10 \<le> width (bbox el)) \<and>
        (adjustsHeight ed \<or> 10 \<le> height (startBBox start) \<longrightarrow> 10 \<le> height (bbox el)) \<and>
        xpos (bbox el) =
          max 0 (min (xpos (resizeBBox ed (startBBox start) (fst pos - startX start) (snd pos - startY start)))
                     (fst img - 10)) \<and>
        ypos (bbox el) =
          max 0 (min (ypos (resizeBBox ed (startBBox start) (fst pos - startX start) (snd pos - startY start)))
                     (snd img - 10)) \<and>
        width (bbox el) =
          min (width (resizeBBox ed (startBBox start) (fst pos - startX start) (snd pos - startY start)))
              (fst img - xpos (bbox el)) \<and>
        height (bbox el) =
          min (height (resizeBBox ed (startBBox start) (fst pos - startX start) (snd pos - startY start)))
              (snd img - ypos (bbox el)))"
proof -
  let ?r = "resizeBBox ed (startBBox start) (fst pos - startX start) (snd pos - startY start)"
  let ?b = "clampToImage (fst img) (snd img) ?r"
  have mv: "handleMouseMove cfg e s = Inr (resizeMove ed start sel img pos s)"
    using assms by (intro handleMouseMove_resizing)
  have rb: "resizedBBox ed start img pos = ?b" by (simp add: resizedBBox_def Let_def)
  have inside: "insideImage img ?b"
    using clampToImage_inside[of "fst img" "snd img" ?r] assms(8,9) by simp
  have w: "adjustsWidth ed \<or> 10 \<le> width (startBBox start) \<Longrightarrow> 10 \<le> width ?b"
    by (intro clampToImage_min_width assms(8)) (auto simp: resizeBBox_width)
  have h: "adjustsHeight ed \<or> 10 \<le> height (startBBox start) \<Longrightarrow> 10 \<le> height ?b"
    by (intro clampToImage_min_height assms(9)) (auto simp: resizeBBox_height)
  have f: "xpos ?b = max 0 (min (xpos ?r) (fst img - 10))"
    "ypos ?b = max 0 (min (ypos ?r) (snd img - 10))"
    "width ?b = min (width ?r) (fst img - xpos ?b)"
    "height ?b = min (height ?r) (snd img - ypos ?b)"
    by (rule clampToImage_fields)+
  have tgt: "bbox el = ?b"
    if "el \<in> set (elements (resizeMove ed start sel img pos s))" "eid el = sel" for el
    using resizeMove_target[OF that] rb by simp
  show ?thesis
  proof (intro exI conjI ballI impI)
    show "handleMouseMove cfg e s = Inr (resizeMove ed start sel img pos s)" by (rule mv)
  qed (use tgt inside w h f in \<open>simp_all only:\<close>)
qed

text \<open>
  The scenario of the specification: bbox \<open>(50, 50, 100, 100)\<close> resized by its north-west
  corner with pointer delta \<open>(-20, -10)\<close>.
\<close>

theorem resize_commit_bounds_witness:
  "handleMouseMove exampleConfig (mouseAt 30 40)
     (resizingCanvas [newElement ''a'' ''button'' (box 50 50 100 100)] ''a'' EdgeNW
        \<lparr> startX = 50, startY = 50, startBBox = box 50 50 100 100 \<rparr>)
   = Inr (resizingCanvas [newElement ''a'' ''button'' (box 30 40 120 110)] ''a'' EdgeNW
        \<lparr> startX = 50, startY = 50, startBBox = box 50 50 100 100 \<rparr>) \<and>
   insideImage (1000, 800) (box 30 40 120 110) \<and>
   10 \<le> width (box 30 40 120 110) \<and> 10 \<le> height (box 30 40 120 110)"
proof -
  let ?start = "\<lparr> startX = 50, startY = 50, startBBox = box 50 50 100 100 \<rparr>"
  let ?s = "resizingCanvas [newElement ''a'' ''button'' (box 50 50 100 100)] ''a'' EdgeNW ?start"
  have ev: "handleMouseMove exampleConfig (mouseAt 30 40) ?s
     = Inr (resizingCanvas [newElement ''a'' ''button'' (box 30 40 120 110)] ''a'' EdgeNW ?start)"
    by (simp add: resizingCanvas_def resizeMove_def resizedBBox_def clampToImage_def eval_defs)
  have "\<exists>s'. handleMouseMove exampleConfig (mouseAt 30 40) ?s = Inr s' \<and>
     (\<forall>el \<in> set (elements s'). eid el = ''a'' \<longrightarrow>
        insideImage (1000, 800) (bbox el) \<and>
        (adjustsWidth EdgeNW \<or> 10 \<le> width (startBBox ?start) \<longrightarrow> 10 \<le> width (bbox el)) \<and>
        (adjustsHeight EdgeNW \<or> 10 \<le> height (startBBox ?start) \<longrightarrow> 10 \<le> height (bbox el)) \<and>
        xpos (bbox el) =
          max 0 (min (xpos (resizeBBox EdgeNW (startBBox ?start) (fst (30, 40) - startX ?start) (snd (30, 40) - startY ?start)))
                     (fst (1000, 800) - 10)) \<and>
        ypos (bbox el) =
          max 0 (min (ypos (resizeBBox EdgeNW (startBBox ?start) (fst (30, 40) - startX ?start) (snd (30, 40) - startY ?start)))
                     (snd (1000, 800) - 10)) \<and>
        width (bbox el) =
          min (width (resizeBBox EdgeNW (startBBox ?start) (fst (30, 40) - startX ?start) (snd (30, 40) - startY ?start)))
              (fst (1000, 800) - xpos (bbox el)) \<and>
        height (bbox el) =
          min (height (resizeBBox EdgeNW (startBBox ?start) (fst (30, 40) - startX ?start) (snd (30, 40) - startY ?start)))
              (snd (1000, 800) - ypos (bbox el)))"
    using resize_commit_bounds
            [of ?s EdgeNW ?start "''a''" exampleConfig "(1000, 800)" "mouseAt 30 40" "(30, 40)"]
    by (simp add: resizingCanvas_def idleCanvas_def exampleConfig_def mouseAt_def
          screenToImage_def scale_def)
  with ev have "insideImage (1000, 800) (box 30 40 120 110) \<and>
     10 \<le> width (box 30 40 120 110) \<and> 10 \<le> height (box 30 40 120 110)"
    by (simp add: resizingCanvas_def idleCanvas_def newElement_def adjustsWidth_def)
  with ev show ?thesis by simp
qed

text \<open>
  The minimum size fails for a dimension the edge does not change: an element drawn 5
  wide and 50 high, then resized by its south edge, is committed 5 wide.
\<close>

theorem resize_commit_bounds_counterexample:
  "run zoom4Config
       [Down (mouseAt 400 400), Move (mouseAt 420 600), Up (mouseAt 420 600),
        Down (mouseAt 408 600)]
       (idleCanvas [] None)
   = Inr ((resizingCanvas [newElement ''el_7'' ''button'' (box 100 100 5 50)] ''el_7'' EdgeS
             \<lparr> startX = 102, startY = 150, startBBox = box 100 100 5 50 \<rparr>)
           \<lparr> emitted := [ElementCreated (newElement ''el_7'' ''button'' (box 100 100 5 50))] \<rparr>) \<and>
   run zoom4Config
       [Down (mouseAt 400 400), Move (mouseAt 420 600), Up (mouseAt 420 600),
        Down (mouseAt 408 600), Move (mouseAt 408 640)]
       (idleCanvas [] None)
   = Inr ((resizingCanvas [newElement ''el_7'' ''button'' (box 100 100 5 60)] ''el_7'' EdgeS
             \<lparr> startX = 102, startY = 150, startBBox = box 100 100 5 50 \<rparr>)
           \<lparr> emitted := [ElementCreated (newElement ''el_7'' ''button'' (box 100 100 5 50))] \<rparr>) \<and>
   width (box 100 100 5 60) < 10"
  by (simp add: zoom4Config_def resizingCanvas_def resizeMove_def resizedBBox_def
      clampToImage_def eval_defs)


section \<open>What a geometry mutation leaves alone\<close>

lemma handleMouseMove_dragging:
  "\<not> isPanning s \<Longrightarrow> screenToImage cfg (clientX e) (clientY e) = Inr pos \<Longrightarrow>
   draggingDivider s = Some d \<Longrightarrow> handleMouseMove cfg e s = Inr (dividerMove d pos s)"
  by (simp add: handleMouseMove_def moveAt_def)

lemma dividerMove_elements:
  "elements (dividerMove d pos s) = elements s \<or>
   (\<exists>fs. elements (dividerMove d pos s) =
           map (\<lambda>x. if eid x = elementId d then
                       (case dividerType d of Col \<Rightarrow> x\<lparr>colWidths := Some fs\<rparr>
                                            | Row \<Rightarrow> x\<lparr>rowHeights := Some fs\<rparr>) else x)
               (elements s))"
proof (cases "find (\<lambda>el. eid el = elementId d) (elements s)")
  case None
  then show ?thesis by (simp add: dividerMove_def)
next
  case (Some el)
  show ?thesis
  proof (cases "dividerType d")
    case Col
    with Some show ?thesis by (auto simp: dividerMove_def Let_def)
  next
    case Row
    with Some show ?thesis by (auto simp: dividerMove_def Let_def)
  qed
qed

lemma dividerMove_frame:
  "length (elements (dividerMove d pos s)) = length (elements s) \<and>
     (\<forall>i < length (elements s).
        (eid (elements s ! i) \<noteq> elementId d \<longrightarrow>
           elements (dividerMove d pos s) ! i = elements s ! i) \<and>
        (elements (dividerMove d pos s) ! i)
           \<lparr>colWidths := colWidths (elements s ! i),
            rowHeights := rowHeights (elements s ! i)\<rparr> = elements s ! i \<and>
        (dividerType d = Col \<longrightarrow>
           rowHeights (elements (dividerMove d pos s) ! i) = rowHeights (elements s ! i)) \<and>
        (dividerType d = Row \<longrightarrow>
           colWidths (elements (dividerMove d pos s) ! i) = colWidths (elements s ! i)))"
  using dividerMove_elements[of d pos s]
  by (cases "dividerType d") auto

lemma resizeMove_frame:
  "length (elements (resizeMove ed start sel img pos s)) = length (elements s) \<and>
     (\<forall>i < length (elements s).
        (eid (elements s ! i) \<noteq> sel \<longrightarrow>
           elements (resizeMove ed start sel img pos s) ! i = elements s ! i) \<and>
        (elements (resizeMove ed start sel img pos s) ! i)\<lparr>bbox := bbox (elements s ! i)\<rparr>
          = elements s ! i)"
  by (simp add: resizeMove_def)

lemma createFromRect_elements:
  "\<exists>new. elements (createFromRect cfg e rect s) = elements s @ new \<and> new \<noteq> [] \<and>
         bbox (hd new) = rect"
  by (simp add: createFromRect_def Let_def newElement_def)

lemma handleMouseUp_creates:
  "\<not> isPanning s \<Longrightarrow> draggingDivider s = None \<Longrightarrow> resizeEdge s = None \<Longrightarrow>
   cropResizeEdge s = None \<Longrightarrow> isDrawing s \<Longrightarrow> \<not> isCropMode cfg \<Longrightarrow>
   currentRect s = Some rect \<Longrightarrow> \<not> (width rect < 10 \<and> height rect < 10) \<Longrightarrow>
   handleMouseUp cfg e s = Inr (createFromRect cfg e rect s)"
  by (auto simp: handleMouseUp_def isClick_def)

text \<open>
  C9. A divider-drag move changes, in the elements whose id is the dragged one, only the
  fraction array of the dragged axis; a resize move changes, in the elements whose id is
  the selected one, only the bbox; every other field of those elements (type, text,
  parent, icons, presentation, the other geometry) and every other element stay as they
  were, at the same position of the collection. The release of a draw that creates
  appends to the collection, in front of which every existing element stays as it was.
  The two moves commit whenever the pointer position converts, whatever the numbers of
  the element are, and the creating release commits always.
\<close>

theorem geometry_mutation_frame:
  "(\<not> isPanning s \<and> draggingDivider s = Some d \<and>
    screenToImage cfg (clientX e) (clientY e) = Inr pos \<longrightarrow>
      (\<exists>s'. handleMouseMove cfg e s = Inr s' \<and>
         length (elements s') = length (elements s) \<and>
         (\<forall>i < length (elements s).
            (eid (elements s ! i) \<noteq> elementId d \<longrightarrow> elements s' ! i = elements s ! i) \<and>
            (elements s' ! i)\<lparr>colWidths := colWidths (elements s ! i),
                                rowHeights := rowHeights (elements s ! i)\<rparr> = elements s ! i \<and>
            (dividerType d = Col \<longrightarrow> rowHeights (elements s' ! i) = rowHeights (elements s ! i)) \<and>
            (dividerType d = Row \<longrightarrow> colWidths (elements s' ! i) = colWidths (elements s ! i))))) \<and>
   (\<not> isPanning s \<and> draggingDivider s = None \<and>
    resizeGesture cfg s = Some (ed, start, sel, img) \<and>
    screenToImage cfg (clientX e) (clientY e) = Inr pos \<longrightarrow>
      (\<exists>s'. handleMouseMove cfg e s = Inr s' \<and>
         length (elements s') = length (elements s) \<and>
         (\<forall>i < length (elements s).
            (eid (elements s ! i) \<noteq> sel \<longrightarrow> elements s' ! i = elements s ! i) \<and>
            (elements s' ! i)\<lparr>bbox := bbox (elements s ! i)\<rparr> = elements s ! i))) \<and>
   (\<not> isPanning s \<and> draggingDivider s = None \<and> resizeEdge s = None \<and>
    cropResizeEdge s = None \<and> isDrawing s \<and> \<not> isCropMode cfg \<and>
    currentRect s = Some rect \<and> \<not> (width rect < 10 \<and> height rect < 10) \<longrightarrow>
      (\<exists>s' new. handleMouseUp cfg e s = Inr s' \<and> elements s' = elements s @ new \<and>
                 new \<noteq> []))"
proof (intro conjI impI)
  assume h: "\<not> isPanning s \<and> draggingDivider s = Some d \<and>
    screenToImage cfg (clientX e) (clientY e) = Inr pos"
  then have "handleMouseMove cfg e s = Inr (dividerMove d pos s)"
    by (simp add: handleMouseMove_dragging)
  then show "\<exists>s'. handleMouseMove cfg e s = Inr s' \<and>
         length (elements s') = length (elements s) \<and>
         (\<forall>i < length (elements s).
            (eid (elements s ! i) \<noteq> elementId d \<longrightarrow> elements s' ! i = elements s ! i) \<and>
            (elements s' ! i)\<lparr>colWidths := colWidths (elements s ! i),
                                rowHeights := rowHeights (elements s ! i)\<rparr> = elements s ! i \<and>
            (dividerType d = Col \<longrightarrow> rowHeights (elements s' ! i) = rowHeights (elements s ! i)) \<and>
            (dividerType d = Row \<longrightarrow> colWidths (elements s' ! i) = colWidths (elements s ! i)))"
    using dividerMove_frame[of d pos s] by blast
next
  assume h: "\<not> isPanning s \<and> draggingDivider s = None \<and>
    resizeGesture cfg s = Some (ed, start, sel, img) \<and>
    screenToImage cfg (clientX e) (clientY e) = Inr pos"
  then have "handleMouseMove cfg e s = Inr (resizeMove ed start sel img pos s)"
    by (simp add: handleMouseMove_def moveAt_def)
  then show "\<exists>s'. handleMouseMove cfg e s = Inr s' \<and>
         length (elements s') = length (elements s) \<and>
         (\<forall>i < length (elements s).
            (eid (elements s ! i) \<noteq> sel \<longrightarrow> elements s' ! i = elements s ! i) \<and>
            (elements s' ! i)\<lparr>bbox := bbox (elements s ! i)\<rparr> = elements s ! i)"
    using resizeMove_frame[of ed start sel img pos s] by blast
next
  assume h: "\<not> isPanning s \<and> draggingDivider s = None \<and> resizeEdge s = None \<and>
    cropResizeEdge s = None \<and> isDrawing s \<and> \<not> isCropMode cfg \<and>
    currentRect s = Some rect \<and> \<not> (width rect < 10 \<and> height rect < 10)"
  then have "handleMouseUp cfg e s = Inr (createFromRect cfg e rect s)"
    by (intro handleMouseUp_creates) simp_all
  then show "\<exists>s' new. handleMouseUp cfg e s = Inr s' \<and> elements s' = elements s @ new \<and>
                 new \<noteq> []"
    using createFromRect_elements[of cfg e rect s] by blast
qed

text \<open>
  Beside a labelled button: the first move of a divider drag on a grid of width zero,
  which commits \<open>[NaN, NaN]\<close>; a resize; and the creation of a listbox while the column
  count is zero, which appends the container alone.
\<close>

theorem geometry_mutation_frame_witness:
  "handleMouseMove exampleConfig (mouseAt 130 120)
     (draggingCanvas [labelled ''a'' (box 200 200 50 50) ''OK'',
                      gridElement ''g'' (box 100 100 0 50) 1 2 None None] ''g'' Col 0 100)
   = Inr (draggingCanvas [labelled ''a'' (box 200 200 50 50) ''OK'',
                      gridElement ''g'' (box 100 100 0 50) 1 2 None (Some [NaN, NaN])]
            ''g'' Col 0 100) \<and>
   handleMouseMove exampleConfig (mouseAt 30 40)
     (resizingCanvas [labelled ''a'' (box 50 50 100 100) ''OK'',
                      labelled ''b'' (box 300 300 50 50) ''Cancel''] ''a'' EdgeNW
        \<lparr> startX = 50, startY = 50, startBBox = box 50 50 100 100 \<rparr>)
   = Inr (resizingCanvas [labelled ''a'' (box 30 40 120 110) ''OK'',
                      labelled ''b'' (box 300 300 50 50) ''Cancel''] ''a'' EdgeNW
        \<lparr> startX = 50, startY = 50, startBBox = box 50 50 100 100 \<rparr>) \<and>
   handleMouseUp listConfig (mouseAt 300 250)
     (drawingCanvas [labelled ''a'' (box 50 50 100 100) ''OK''] (100, 100) (box 100 100 200 150))
   = Inr (idleCanvas [labelled ''a'' (box 50 50 100 100) ''OK'',
                      listElement ''el_7'' (box 100 100 200 150) 2 0 None] (Some ''el_7''))"
proof -
  let ?a = "labelled ''a'' (box 200 200 50 50) ''OK''"
  let ?g = "gridElement ''g'' (box 100 100 0 50) 1 2 None None"
  let ?g' = "gridElement ''g'' (box 100 100 0 50) 1 2 None (Some [NaN, NaN])"
  let ?d = "\<lparr> elementId = ''g'', dividerType = Col, dividerIndex = 0, startPos = 100 \<rparr>"
  let ?sA = "draggingCanvas [?a, ?g] ''g'' Col 0 100"
  let ?sA' = "draggingCanvas [?a, ?g'] ''g'' Col 0 100"
  let ?start = "\<lparr> startX = 50, startY = 50, startBBox = box 50 50 100 100 \<rparr>"
  let ?sB = "resizingCanvas [labelled ''a'' (box 50 50 100 100) ''OK'',
                      labelled ''b'' (box 300 300 50 50) ''Cancel''] ''a'' EdgeNW ?start"
  let ?sB' = "resizingCanvas [labelled ''a'' (box 30 40 120 110) ''OK'',
                      labelled ''b'' (box 300 300 50 50) ''Cancel''] ''a'' EdgeNW ?start"
  let ?sC = "drawingCanvas [labelled ''a'' (box 50 50 100 100) ''OK''] (100, 100) (box 100 100 200 150)"
  let ?sC' = "idleCanvas [labelled ''a'' (box 50 50 100 100) ''OK'',
                      listElement ''el_7'' (box 100 100 200 150) 2 0 None] (Some ''el_7'')"
  have evA: "handleMouseMove exampleConfig (mouseAt 130 120) ?sA = Inr ?sA'"
    by (simp add: draggingCanvas_def labelled_def eval_defs)
  have evB: "handleMouseMove exampleConfig (mouseAt 30 40) ?sB = Inr ?sB'"
    by (simp add: resizingCanvas_def labelled_def resizeMove_def resizedBBox_def clampToImage_def eval_defs)
  have evC: "handleMouseUp listConfig (mouseAt 300 250) ?sC = Inr ?sC'"
    by (simp add: drawingCanvas_def labelled_def listConfig_def listElement_def cellElements_def
          eval_defs)
  have hA: "\<not> isPanning ?sA \<and> draggingDivider ?sA = Some ?d \<and>
      screenToImage exampleConfig (clientX (mouseAt 130 120)) (clientY (mouseAt 130 120))
        = Inr (130, 120)"
    by (simp add: draggingCanvas_def idleCanvas_def exampleConfig_def mouseAt_def
          screenToImage_def scale_def)
  have hB: "\<not> isPanning ?sB \<and> draggingDivider ?sB = None \<and>
      resizeGesture exampleConfig ?sB = Some (EdgeNW, ?start, ''a'', (1000, 800)) \<and>
      screenToImage exampleConfig (clientX (mouseAt 30 40)) (clientY (mouseAt 30 40))
        = Inr (30, 40)"
    by (simp add: resizingCanvas_def idleCanvas_def resizeGesture_def exampleConfig_def
          mouseAt_def screenToImage_def scale_def)
  have hC: "\<not> isPanning ?sC \<and> draggingDivider ?sC = None \<and> resizeEdge ?sC = None \<and>
      cropResizeEdge ?sC = None \<and> isDrawing ?sC \<and> \<not> isCropMode listConfig \<and>
      currentRect ?sC = Some (box 100 100 200 150) \<and>
      \<not> (width (box 100 100 200 150) < 10 \<and> height (box 100 100 200 150) < 10)"
    by (simp add: drawingCanvas_def idleCanvas_def listConfig_def exampleConfig_def box_def)
  note fA = geometry_mutation_frame
              [where s = ?sA and d = ?d and cfg = exampleConfig and e = "mouseAt 130 120"
                 and pos = "(130, 120)", THEN conjunct1, THEN mp, OF hA]
  note fB = geometry_mutation_frame
              [where s = ?sB and cfg = exampleConfig and e = "mouseAt 30 40" and ed = EdgeNW
                 and start = ?start and sel = "''a''" and img = "(1000, 800)"
                 and pos = "(30, 40)", THEN conjunct2, THEN conjunct1, THEN mp, OF hB]
  note fC = geometry_mutation_frame
              [where s = ?sC and cfg = listConfig and e = "mouseAt 300 250"
                 and rect = "box 100 100 200 150", THEN conjunct2, THEN conjunct2, THEN mp, OF hC]
  have "length (elements ?sA') = length (elements ?sA)"
    using fA evA by auto
  moreover have "length (elements ?sB') = length (elements ?sB)"
    using fB evB by auto
  moreover have "\<exists>new. elements ?sC' = elements ?sC @ new \<and> new \<noteq> []"
    using fC evC by auto
  ultimately show ?thesis using evA evB evC by simp
qed

section \<open>Snapshot and live element\<close>

text \<open>
  C5, as the code has it. The bbox a resize pointer-move commits is a function of the
  start-of-gesture snapshot (edge, start point, original bbox), the image size and the
  pointer position only: two canvases in the same resize gesture, whatever their live
  collections hold, commit the same bbox to the selected element.
\<close>

theorem resize_commit_from_snapshot:
  assumes "resizeEdge s1 = Some ed" and "resizeEdge s2 = Some ed"
    and "resizeStart s1 = Some start" and "resizeStart s2 = Some start"
    and "selectedElementId s1 = Some sel" and "selectedElementId s2 = Some sel" and "sel \<noteq> []"
    and "\<not> isPanning s1" and "\<not> isPanning s2"
    and "draggingDivider s1 = None" and "draggingDivider s2 = None"
    and "imageSize cfg = Some img"
    and "screenToImage cfg (clientX e) (clientY e) = Inr pos"
  shows "\<exists>s1' s2'. handleMouseMove cfg e s1 = Inr s1' \<and> handleMouseMove cfg e s2 = Inr s2' \<and>
           (\<forall>el1 \<in> set (elements s1'). \<forall>el2 \<in> set (elements s2').
              eid el1 = sel \<and> eid el2 = sel \<longrightarrow>
                bbox el1 = resizedBBox ed start img pos \<and> bbox el2 = bbox el1)"
proof -
  have m1: "handleMouseMove cfg e s1 = Inr (resizeMove ed start sel img pos s1)"
    using assms by (intro handleMouseMove_resizing)
  have m2: "handleMouseMove cfg e s2 = Inr (resizeMove ed start sel img pos s2)"
    using assms by (intro handleMouseMove_resizing)
  have "bbox el1 = resizedBBox ed start img pos \<and> bbox el2 = bbox el1"
    if "el1 \<in> set (elements (resizeMove ed start sel img pos s1))"
       "el2 \<in> set (elements (resizeMove ed start sel img pos s2))"
       "eid el1 = sel \<and> eid el2 = sel" for el1 el2
    using resizeMove_target[OF that(1)] resizeMove_target[OF that(2)] that(3) by simp
  then show ?thesis using m1 m2 by blast
qed

text \<open>Two runs of one resize, the second with the target's bbox edited from outside.\<close>

theorem resize_commit_from_snapshot_witness:
  "handleMouseMove exampleConfig (mouseAt 30 40)
     (resizingCanvas [newElement ''a'' ''button'' (box 50 50 100 100)] ''a'' EdgeNW
        \<lparr> startX = 50, startY = 50, startBBox = box 50 50 100 100 \<rparr>)
   = Inr (resizingCanvas [newElement ''a'' ''button'' (box 30 40 120 110)] ''a'' EdgeNW
        \<lparr> startX = 50, startY = 50, startBBox = box 50 50 100 100 \<rparr>) \<and>
   handleMouseMove exampleConfig (mouseAt 30 40)
     (resizingCanvas [newElement ''a'' ''button'' (box 70 70 30 30)] ''a'' EdgeNW
        \<lparr> startX = 50, startY = 50, startBBox = box 50 50 100 100 \<rparr>)
   = Inr (resizingCanvas [newElement ''a'' ''button'' (box 30 40 120 110)] ''a'' EdgeNW
        \<lparr> startX = 50, startY = 50, startBBox = box 50 50 100 100 \<rparr>) \<and>
   resizedBBox EdgeNW \<lparr> startX = 50, startY = 50, startBBox = box 50 50 100 100 \<rparr>
     (1000, 800) (30, 40) = box 30 40 120 110"
proof -
  let ?start = "\<lparr> startX = 50, startY = 50, startBBox = box 50 50 100 100 \<rparr>"
  let ?s1 = "resizingCanvas [newElement ''a'' ''button'' (box 50 50 100 100)] ''a'' EdgeNW ?start"
  let ?s2 = "resizingCanvas [newElement ''a'' ''button'' (box 70 70 30 30)] ''a'' EdgeNW ?start"
  let ?r = "resizingCanvas [newElement ''a'' ''button'' (box 30 40 120 110)] ''a'' EdgeNW ?start"
  have ev1: "handleMouseMove exampleConfig (mouseAt 30 40) ?s1 = Inr ?r"
    by (simp add: resizingCanvas_def resizeMove_def resizedBBox_def clampToImage_def eval_defs)
  have ev2: "handleMouseMove exampleConfig (mouseAt 30 40) ?s2 = Inr ?r"
    by (simp add: resizingCanvas_def resizeMove_def resizedBBox_def clampToImage_def eval_defs)
  have "\<exists>s1' s2'. handleMouseMove exampleConfig (mouseAt 30 40) ?s1 = Inr s1' \<and>
           handleMouseMove exampleConfig (mouseAt 30 40) ?s2 = Inr s2' \<and>
           (\<forall>el1 \<in> set (elements s1'). \<forall>el2 \<in> set (elements s2').
              eid el1 = ''a'' \<and> eid el2 = ''a'' \<longrightarrow>
                bbox el1 = resizedBBox EdgeNW ?start (1000, 800) (30, 40) \<and> bbox el2 = bbox el1)"
    by (rule resize_commit_from_snapshot)
       (simp_all add: resizingCanvas_def idleCanvas_def exampleConfig_def mouseAt_def
          screenToImage_def scale_def)
  with ev1 ev2 have "resizedBBox EdgeNW ?start (1000, 800) (30, 40) = box 30 40 120 110"
    by (simp add: resizingCanvas_def idleCanvas_def newElement_def)
  with ev1 ev2 show ?thesis by simp
qed

text \<open>
  A divider drag keeps no snapshot: each move reads the live element. The same move of
  the same gesture commits different fractions after an outside edit of the target's
  fraction array, and after an outside edit of its bbox. Every number here is a double,
  and so is every intermediate result, so that the model's values are the source's.
\<close>

theorem divider_drag_reads_live_element:
  "handleMouseMove exampleConfig (mouseAt 80 50)
     (draggingCanvas [gridElement ''g'' (box 0 0 128 100) 1 3 None
                        (Some [Fin (1/4), Fin (1/4), Fin (1/2)])] ''g'' Col 1 64)
   = Inr (draggingCanvas [gridElement ''g'' (box 0 0 128 100) 1 3 None
                        (Some [Fin (1/4), Fin (3/8), Fin (3/8)])] ''g'' Col 1 64) \<and>
   handleMouseMove exampleConfig (mouseAt 80 50)
     (draggingCanvas [gridElement ''g'' (box 0 0 128 100) 1 3 None
                        (Some [Fin (1/2), Fin (1/4), Fin (1/4)])] ''g'' Col 1 64)
   = Inr (draggingCanvas [gridElement ''g'' (box 0 0 128 100) 1 3 None
                        (Some [Fin (1/2), Fin (1/8), Fin (3/8)])] ''g'' Col 1 64) \<and>
   handleMouseMove exampleConfig (mouseAt 80 50)
     (draggingCanvas [gridElement ''g'' (box 0 0 256 100) 1 3 None
                        (Some [Fin (1/4), Fin (1/4), Fin (1/2)])] ''g'' Col 1 64)
   = Inr (draggingCanvas [gridElement ''g'' (box 0 0 256 100) 1 3 None
                        (Some [Fin (1/4), Fin (1/16), Fin (11/16)])] ''g'' Col 1 64)"
  by (simp add: draggingCanvas_def eval_defs)

section \<open>A divider drag that ends where it began\<close>

lemma pointerDownModes_elements:
  "pointerDownModes cfg e pos s = Inr s' \<Longrightarrow> elements s' = elements s"
  by (auto simp: pointerDownModes_def startDrawing_def
           split: if_splits sum.splits option.splits)

lemma handleMouseDown_elements:
  "handleMouseDown cfg e s = Inr s' \<Longrightarrow> elements s' = elements s"
  by (auto simp: handleMouseDown_def dest: pointerDownModes_elements
           split: if_splits sum.splits option.splits)

text \<open>
  C7, as the code has it. A divider-drag gesture with no pointer-move (down, then up)
  leaves the collection, and so the fraction array, as it was. The pointer-up that ends a
  divider drag changes nothing but the drag state, so that the array at the end of a
  gesture with pointer-moves is the one its last move committed.
\<close>

theorem divider_drag_identity:
  "(handleMouseDown cfg e1 s = Inr s1 \<and> \<not> isPanning s1 \<and> draggingDivider s1 \<noteq> None \<longrightarrow>
      run cfg [Down e1, Up e2] s = Inr (s1\<lparr>draggingDivider := None\<rparr>) \<and>
      elements (s1\<lparr>draggingDivider := None\<rparr>) = elements s) \<and>
   (\<not> isPanning s \<and> draggingDivider s \<noteq> None \<longrightarrow>
      handleMouseUp cfg e s = Inr (s\<lparr>draggingDivider := None\<rparr>))"
proof (intro conjI impI)
  assume h: "handleMouseDown cfg e1 s = Inr s1 \<and> \<not> isPanning s1 \<and> draggingDivider s1 \<noteq> None"
  then show "run cfg [Down e1, Up e2] s = Inr (s1\<lparr>draggingDivider := None\<rparr>)"
    by (simp add: handleMouseUp_def)
  show "elements (s1\<lparr>draggingDivider := None\<rparr>) = elements s"
    using h handleMouseDown_elements[of cfg e1 s s1] by simp
next
  assume "\<not> isPanning s \<and> draggingDivider s \<noteq> None"
  then show "handleMouseUp cfg e s = Inr (s\<lparr>draggingDivider := None\<rparr>)"
    by (simp add: handleMouseUp_def)
qed

text \<open>
  A grid with columns \<open>[1/2, 1/2]\<close> of 128 units: a press and release at 66, inside the
  tolerance of the divider at 64; and the release that ends a drag.
\<close>

theorem divider_drag_identity_witness:
  "run exampleConfig [Down (mouseAt 66 50), Up (mouseAt 66 50)]
      (idleCanvas [gridElement ''g'' (box 0 0 128 100) 1 2 None (Some [Fin (1/2), Fin (1/2)])] None)
   = Inr (idleCanvas [gridElement ''g'' (box 0 0 128 100) 1 2 None (Some [Fin (1/2), Fin (1/2)])] None) \<and>
   handleMouseUp exampleConfig (mouseAt 80 50)
      (draggingCanvas [gridElement ''g'' (box 0 0 128 100) 1 2 None (Some [Fin (5/8), Fin (3/8)])]
         ''g'' Col 0 66)
   = Inr (idleCanvas [gridElement ''g'' (box 0 0 128 100) 1 2 None (Some [Fin (5/8), Fin (3/8)])] None)"
proof -
  let ?g = "gridElement ''g'' (box 0 0 128 100) 1 2 None (Some [Fin (1/2), Fin (1/2)])"
  let ?s = "idleCanvas [?g] None"
  let ?s1 = "draggingCanvas [?g] ''g'' Col 0 66"
  let ?t = "draggingCanvas [gridElement ''g'' (box 0 0 128 100) 1 2 None (Some [Fin (5/8), Fin (3/8)])]
              ''g'' Col 0 66"
  have down: "handleMouseDown exampleConfig (mouseAt 66 50) ?s = Inr ?s1"
    by (simp add: draggingCanvas_def eval_defs)
  have hyp1: "handleMouseDown exampleConfig (mouseAt 66 50) ?s = Inr ?s1 \<and>
      \<not> isPanning ?s1 \<and> draggingDivider ?s1 \<noteq> None"
    using down by (simp add: draggingCanvas_def idleCanvas_def)
  have hyp2: "\<not> isPanning ?t \<and> draggingDivider ?t \<noteq> None"
    by (simp add: draggingCanvas_def idleCanvas_def)
  note a = divider_drag_identity
             [where cfg = exampleConfig and ?e1.0 = "mouseAt 66 50" and s = ?s and ?s1.0 = ?s1
                and ?e2.0 = "mouseAt 66 50", THEN conjunct1, THEN mp, OF hyp1, THEN conjunct1]
  note b = divider_drag_identity
             [where cfg = exampleConfig and s = ?t and e = "mouseAt 80 50",
              THEN conjunct2, THEN mp, OF hyp2]
  from a b show ?thesis by (simp add: draggingCanvas_def idleCanvas_def)
qed

text \<open>
  The same grid grabbed at 66, moved to 80 and back to 66, and released at 66: zero net
  movement, and the columns are \<open>[33/64, 31/64]\<close>. And a grid of 100 units with columns
  \<open>[1/2, 1/4 + 2^-54, 1/4 - 2^-54]\<close>, which are doubles and sum to 1, pressed exactly
  on its first divider at 50, with one move at 50 and the release at 50: the sum of the
  first two columns rounds to \<open>3/4\<close>, and the second column becomes \<open>1/4\<close>.
\<close>

theorem divider_drag_identity_counterexample:
  "run exampleConfig
       [Down (mouseAt 66 50), Move (mouseAt 80 50), Move (mouseAt 66 50), Up (mouseAt 66 50)]
       (idleCanvas [gridElement ''g'' (box 0 0 128 100) 1 2 None (Some [Fin (1/2), Fin (1/2)])] None)
   = Inr (idleCanvas [gridElement ''g'' (box 0 0 128 100) 1 2 None
                        (Some [Fin (33/64), Fin (31/64)])] None) \<and>
   run exampleConfig [Down (mouseAt 50 50), Move (mouseAt 50 50), Up (mouseAt 50 50)]
       (idleCanvas [gridElement ''g'' (box 0 0 100 100) 1 3 None
                      (Some [Fin (1/2), Fin (1/4 + 1/2^54), Fin (1/4 - 1/2^54)])] None)
   = Inr (idleCanvas [gridElement ''g'' (box 0 0 100 100) 1 3 None
                      (Some [Fin (1/2), Fin (1/4), Fin (1/4 - 1/2^54)])] None) \<and>
   toDouble (1/4 + 1/2^54) = Fin (1/4 + 1/2^54) \<and>
   toDouble (1/4 - 1/2^54) = Fin (1/4 - 1/2^54) \<and>
   Fin (1/4 + 1/2^54) \<noteq> Fin (1/4)"
  by (simp add: eval_defs)

section \<open>Rounded positions\<close>









section \<open>A draw too small to create an element\<close>








section \<open>The order of the pointer-down transitions\<close>

lemma detectEdge_found:
  assumes "detectEdge cfg els sel pos = Inr (Some ed)"
  shows "truthy sel \<and> (\<exists>el. find (\<lambda>x. Some (eid x) = sel) els = Some el)"
  using assms by (auto simp: detectEdge_def split: if_splits option.splits)

lemma handleMouseDown_pan:
  "truthy (imageUrl cfg) \<Longrightarrow> button e = 1 \<or> altKey e \<or> spaceHeld s \<Longrightarrow>
   handleMouseDown cfg e s =
     Inr (s\<lparr>isPanning := True, panStart := (clientX e - fst (pan s), clientY e - snd (pan s))\<rparr>)"
  by (simp add: handleMouseDown_def)

lemma handleMouseDown_divider:
  "truthy (imageUrl cfg) \<Longrightarrow> \<not> (button e = 1 \<or> altKey e \<or> spaceHeld s) \<Longrightarrow>
   screenToImage cfg (clientX e) (clientY e) = Inr pos \<Longrightarrow>
   detectDivider cfg (elements s) pos = Inr (Some d) \<Longrightarrow>
   handleMouseDown cfg e s =
     Inr (s\<lparr>draggingDivider := Some
            \<lparr> elementId = elementId d, dividerType = dividerType d, dividerIndex = dividerIndex d,
              startPos = (if dividerType d = Col then fst pos else snd pos) \<rparr>\<rparr>)"
  by (simp add: handleMouseDown_def)

lemma handleMouseDown_resize:
  assumes "truthy (imageUrl cfg)" "\<not> (button e = 1 \<or> altKey e \<or> spaceHeld s)"
    "screenToImage cfg (clientX e) (clientY e) = Inr pos"
    "detectDivider cfg (elements s) pos = Inr None"
    "detectEdge cfg (elements s) (selectedElementId s) pos = Inr (Some ed)"
  shows "\<exists>el. find (\<lambda>x. Some (eid x) = selectedElementId s) (elements s) = Some el \<and>
     handleMouseDown cfg e s =
       Inr (s\<lparr>resizeEdge := Some ed,
              resizeStart := Some \<lparr> startX = fst pos, startY = snd pos, startBBox = bbox el \<rparr>\<rparr>)"
proof -
  from detectEdge_found[OF assms(5)] obtain el where
    el: "truthy (selectedElementId s)"
        "find (\<lambda>x. Some (eid x) = selectedElementId s) (elements s) = Some el" by blast
  then have "handleMouseDown cfg e s =
       Inr (s\<lparr>resizeEdge := Some ed,
              resizeStart := Some \<lparr> startX = fst pos, startY = snd pos, startBBox = bbox el \<rparr>\<rparr>)"
    using assms by (simp add: handleMouseDown_def)
  with el(2) show ?thesis by blast
qed

lemma handleMouseDown_modes:
  "truthy (imageUrl cfg) \<Longrightarrow> \<not> (button e = 1 \<or> altKey e \<or> spaceHeld s) \<Longrightarrow>
   screenToImage cfg (clientX e) (clientY e) = Inr pos \<Longrightarrow>
   detectDivider cfg (elements s) pos = Inr None \<Longrightarrow>
   detectEdge cfg (elements s) (selectedElementId s) pos = Inr None \<Longrightarrow>
   handleMouseDown cfg e s = pointerDownModes cfg e pos s"
  by (simp add: handleMouseDown_def)

lemma pointerDownModes_sample:
  "isColorSampling cfg \<and> onColorSampled cfg \<Longrightarrow> canvasRef cfg = Some cv \<Longrightarrow>
   context2d cv = Some pixel \<Longrightarrow>
   pointerDownModes cfg e pos s =
     Inr (s\<lparr>emitted := emitted s @
            [ColorSampled (pixel (fst pos * scale cfg + fst (offset cfg))
                                 (snd pos * scale cfg + snd (offset cfg)))]\<rparr>)"
  by (simp add: pointerDownModes_def)

lemma pointerDownModes_crop_resize:
  "\<not> (isColorSampling cfg \<and> onColorSampled cfg) \<Longrightarrow> isCropMode cfg \<Longrightarrow>
   detectCropEdge cfg (cropRect s) pos = Inr (Some ce) \<Longrightarrow> cropRect s = Some cr \<Longrightarrow>
   pointerDownModes cfg e pos s =
     Inr (s\<lparr>cropResizeEdge := Some ce,
            cropResizeStart := Some \<lparr> startX = fst pos, startY = snd pos, startBBox = cr \<rparr>\<rparr>)"
  by (auto simp: pointerDownModes_def)

lemma pointerDownModes_crop_draw:
  "\<not> (isColorSampling cfg \<and> onColorSampled cfg) \<Longrightarrow> isCropMode cfg \<Longrightarrow>
   detectCropEdge cfg (cropRect s) pos = Inr None \<Longrightarrow>
   pointerDownModes cfg e pos s = Inr (startDrawing pos s)"
  by (auto simp: pointerDownModes_def)

lemma pointerDownModes_icon:
  "\<not> (isColorSampling cfg \<and> onColorSampled cfg) \<Longrightarrow> \<not> isCropMode cfg \<Longrightarrow>
   isIconPlacementMode cfg \<and> truthy (selectedElementId s) \<and> onIconPlaced cfg \<Longrightarrow>
   find (\<lambda>x. Some (eid x) = selectedElementId s) (elements s) = Some el \<Longrightarrow>
   isIconContainer el \<Longrightarrow>
   pointerDownModes cfg e pos s =
     Inr (if insideBBox pos (bbox el)
          then s\<lparr>emitted := emitted s @
                 [IconPlaced (eid el)
                    \<lparr> iconElementId = ''icon_'' @ showNat (now e) @ ''_'' @ randomSuffix e,
                      centerX = fst pos - xpos (bbox el),
                      centerY = snd pos - ypos (bbox el) \<rparr>]\<rparr>
          else s)"
  by (auto simp: pointerDownModes_def)

lemma pointerDownModes_draw:
  "\<not> (isColorSampling cfg \<and> onColorSampled cfg) \<Longrightarrow> \<not> isCropMode cfg \<Longrightarrow>
   \<not> (isIconPlacementMode cfg \<and> truthy (selectedElementId s) \<and> onIconPlaced cfg \<and>
      (\<exists>el. find (\<lambda>x. Some (eid x) = selectedElementId s) (elements s) = Some el \<and>
            isIconContainer el)) \<Longrightarrow>
   pointerDownModes cfg e pos s = Inr (startDrawing pos s)"
  by (auto simp: pointerDownModes_def split: option.splits)

text \<open>
  C6, as the code has it. With an image loaded, a pointer-down takes the first of these
  that applies: a held pan trigger (middle button, Alt, space) starts panning, before any
  hit test; else a divider hit starts a divider drag; else a resize edge of the selected
  element starts a resize with the element's bbox as snapshot; else colour sampling mode
  (with a canvas context) reports one sample; else crop mode starts a crop resize on a
  crop edge and a crop draw otherwise; else, in icon placement mode with an icon
  container selected, a pointer inside the container reports one placement and a pointer
  outside it does nothing; else drawing begins.
\<close>

theorem pointer_down_order:
  assumes img: "truthy (imageUrl cfg)"
  shows
  "(button e = 1 \<or> altKey e \<or> spaceHeld s \<longrightarrow>
      handleMouseDown cfg e s =
        Inr (s\<lparr>isPanning := True,
               panStart := (clientX e - fst (pan s), clientY e - snd (pan s))\<rparr>)) \<and>
   (\<not> (button e = 1 \<or> altKey e \<or> spaceHeld s) \<and>
    screenToImage cfg (clientX e) (clientY e) = Inr pos \<longrightarrow>
      (detectDivider cfg (elements s) pos = Inr (Some d) \<longrightarrow>
         handleMouseDown cfg e s =
           Inr (s\<lparr>draggingDivider := Some
                  \<lparr> elementId = elementId d, dividerType = dividerType d,
                    dividerIndex = dividerIndex d,
                    startPos = (if dividerType d = Col then fst pos else snd pos) \<rparr>\<rparr>)) \<and>
      (detectDivider cfg (elements s) pos = Inr None \<longrightarrow>
         (detectEdge cfg (elements s) (selectedElementId s) pos = Inr (Some ed) \<longrightarrow>
            (\<exists>target. find (\<lambda>x. Some (eid x) = selectedElementId s) (elements s) = Some target \<and>
               handleMouseDown cfg e s =
                 Inr (s\<lparr>resizeEdge := Some ed,
                        resizeStart := Some \<lparr> startX = fst pos, startY = snd pos,
                                              startBBox = bbox target \<rparr>\<rparr>))) \<and>
         (detectEdge cfg (elements s) (selectedElementId s) pos = Inr None \<longrightarrow>
            (isColorSampling cfg \<and> onColorSampled cfg \<and> canvasRef cfg = Some cv \<and>
             context2d cv = Some pixel \<longrightarrow>
               handleMouseDown cfg e s =
                 Inr (s\<lparr>emitted := emitted s @
                        [ColorSampled (pixel (fst pos * scale cfg + fst (offset cfg))
                                             (snd pos * scale cfg + snd (offset cfg)))]\<rparr>)) \<and>
            (\<not> (isColorSampling cfg \<and> onColorSampled cfg) \<longrightarrow>
               (isCropMode cfg \<longrightarrow>
                  (detectCropEdge cfg (cropRect s) pos = Inr (Some ce) \<and> cropRect s = Some cr \<longrightarrow>
                     handleMouseDown cfg e s =
                       Inr (s\<lparr>cropResizeEdge := Some ce,
                              cropResizeStart := Some \<lparr> startX = fst pos, startY = snd pos,
                                                        startBBox = cr \<rparr>\<rparr>)) \<and>
                  (detectCropEdge cfg (cropRect s) pos = Inr None \<longrightarrow>
                     handleMouseDown cfg e s =
                       Inr (s\<lparr>isDrawing := True, startPoint := Some pos\<rparr>))) \<and>
               (\<not> isCropMode cfg \<longrightarrow>
                  (isIconPlacementMode cfg \<and> truthy (selectedElementId s) \<and> onIconPlaced cfg \<and>
                   find (\<lambda>x. Some (eid x) = selectedElementId s) (elements s) = Some el \<and>
                   isIconContainer el \<longrightarrow>
                     handleMouseDown cfg e s =
                       Inr (if insideBBox pos (bbox el)
                            then s\<lparr>emitted := emitted s @
                                   [IconPlaced (eid el)
                                      \<lparr> iconElementId =
                                          ''icon_'' @ showNat (now e) @ ''_'' @ randomSuffix e,
                                        centerX = fst pos - xpos (bbox el),
                                        centerY = snd pos - ypos (bbox el) \<rparr>]\<rparr>
                            else s)) \<and>
                  (\<not> (isIconPlacementMode cfg \<and> truthy (selectedElementId s) \<and> onIconPlaced cfg \<and>
                      (\<exists>container. find (\<lambda>x. Some (eid x) = selectedElementId s) (elements s)
                                      = Some container \<and> isIconContainer container)) \<longrightarrow>
                     handleMouseDown cfg e s =
                       Inr (s\<lparr>isDrawing := True, startPoint := Some pos\<rparr>)))))))"
proof (intro conjI impI, goal_cases)
  case 1
  then show ?case using img by (simp add: handleMouseDown_pan)
next
  case 2
  then show ?case using img by (simp add: handleMouseDown_divider)
next
  case 3
  then show ?case using img handleMouseDown_resize[of cfg e s pos ed] by simp
next
  case 4
  then have "handleMouseDown cfg e s = pointerDownModes cfg e pos s"
    using img by (simp add: handleMouseDown_modes)
  then show ?case using 4 by (simp add: pointerDownModes_sample)
next
  case 5
  then have "handleMouseDown cfg e s = pointerDownModes cfg e pos s"
    using img by (simp add: handleMouseDown_modes)
  then show ?case using 5 pointerDownModes_crop_resize[of cfg s pos ce cr e] by metis
next
  case 6
  then have "handleMouseDown cfg e s = pointerDownModes cfg e pos s"
    using img by (simp add: handleMouseDown_modes)
  then show ?case using 6 pointerDownModes_crop_draw[of cfg s pos e] by (simp add: startDrawing_def)
next
  case 7
  then have "handleMouseDown cfg e s = pointerDownModes cfg e pos s"
    using img by (simp add: handleMouseDown_modes)
  then show ?case using 7 pointerDownModes_icon[of cfg s el e pos] by simp
next
  case 8
  then have "handleMouseDown cfg e s = pointerDownModes cfg e pos s"
    using img by (simp add: handleMouseDown_modes)
  then show ?case using 8 pointerDownModes_draw[of cfg s e pos] by (simp add: startDrawing_def)
qed

text \<open>
  A selected two-column grid. At the top end of its divider both a divider and the north
  edge are within tolerance: the divider wins, and with Alt held panning wins. On the east
  edge a resize starts, and in empty space a draw.
\<close>

theorem pointer_down_order_witness:
  "handleMouseDown exampleConfig ((mouseAt 50 0)\<lparr>altKey := True\<rparr>)
     (idleCanvas [gridElement ''g'' (box 0 0 100 100) 1 2 None None] (Some ''g''))
   = Inr ((idleCanvas [gridElement ''g'' (box 0 0 100 100) 1 2 None None] (Some ''g''))
            \<lparr>isPanning := True, panStart := (50, 0)\<rparr>) \<and>
   detectEdge exampleConfig [gridElement ''g'' (box 0 0 100 100) 1 2 None None] (Some ''g'') (50, 0)
   = Inr (Some EdgeN) \<and>
   handleMouseDown exampleConfig (mouseAt 50 0)
     (idleCanvas [gridElement ''g'' (box 0 0 100 100) 1 2 None None] (Some ''g''))
   = Inr ((idleCanvas [gridElement ''g'' (box 0 0 100 100) 1 2 None None] (Some ''g''))
            \<lparr>draggingDivider := Some \<lparr> elementId = ''g'', dividerType = Col, dividerIndex = 0,
                                        startPos = 50 \<rparr>\<rparr>) \<and>
   handleMouseDown exampleConfig (mouseAt 100 70)
     (idleCanvas [gridElement ''g'' (box 0 0 100 100) 1 2 None None] (Some ''g''))
   = Inr (resizingCanvas [gridElement ''g'' (box 0 0 100 100) 1 2 None None] ''g'' EdgeE
            \<lparr> startX = 100, startY = 70, startBBox = box 0 0 100 100 \<rparr>) \<and>
   handleMouseDown exampleConfig (mouseAt 500 500)
     (idleCanvas [gridElement ''g'' (box 0 0 100 100) 1 2 None None] (Some ''g''))
   = Inr ((idleCanvas [gridElement ''g'' (box 0 0 100 100) 1 2 None None] (Some ''g''))
            \<lparr>isDrawing := True, startPoint := Some (500, 500)\<rparr>)"
proof -
  let ?g = "gridElement ''g'' (box 0 0 100 100) 1 2 None None"
  let ?s = "idleCanvas [?g] (Some ''g'')"
  let ?d = "\<lparr> elementId = ''g'', dividerType = Col, dividerIndex = 0 \<rparr>"
  have img: "truthy (imageUrl exampleConfig)"
    by (simp add: exampleConfig_def truthy_def)
  have nopan: "\<not> (button (mouseAt px py) = 1 \<or> altKey (mouseAt px py) \<or> spaceHeld ?s)" for px py
    by (simp add: mouseAt_def idleCanvas_def)
  have pos: "screenToImage exampleConfig (clientX (mouseAt 50 0)) (clientY (mouseAt 50 0)) = Inr (50, 0)"
    "screenToImage exampleConfig (clientX (mouseAt 100 70)) (clientY (mouseAt 100 70)) = Inr (100, 70)"
    "screenToImage exampleConfig (clientX (mouseAt 500 500)) (clientY (mouseAt 500 500)) = Inr (500, 500)"
    by (simp_all add: exampleConfig_def mouseAt_def screenToImage_def scale_def)
  have div: "detectDivider exampleConfig (elements ?s) (50, 0) = Inr (Some ?d)"
    "detectDivider exampleConfig (elements ?s) (100, 70) = Inr None"
    "detectDivider exampleConfig (elements ?s) (500, 500) = Inr None"
    by (simp_all add: eval_defs)
  have edge: "detectEdge exampleConfig (elements ?s) (selectedElementId ?s) (50, 0) = Inr (Some EdgeN)"
    "detectEdge exampleConfig (elements ?s) (selectedElementId ?s) (100, 70) = Inr (Some EdgeE)"
    "detectEdge exampleConfig (elements ?s) (selectedElementId ?s) (500, 500) = Inr None"
    by (simp_all add: eval_defs)
  have modes: "\<not> (isColorSampling exampleConfig \<and> onColorSampled exampleConfig)"
    "\<not> isCropMode exampleConfig"
    "\<not> (isIconPlacementMode exampleConfig \<and> truthy (selectedElementId ?s) \<and>
        onIconPlaced exampleConfig \<and>
        (\<exists>container. find (\<lambda>x. Some (eid x) = selectedElementId ?s) (elements ?s)
                        = Some container \<and> isIconContainer container))"
    by (simp_all add: exampleConfig_def)
  have trig: "button ((mouseAt 50 0)\<lparr>altKey := True\<rparr>) = 1 \<or>
      altKey ((mouseAt 50 0)\<lparr>altKey := True\<rparr>) \<or> spaceHeld ?s"
    by simp
  note w1 = pointer_down_order[OF img, THEN conjunct1, THEN mp, OF trig]
  note w2 = pointer_down_order[OF img, THEN conjunct2, THEN mp, OF conjI[OF nopan pos(1)],
              THEN conjunct1, THEN mp, OF div(1)]
  note w3 = pointer_down_order[OF img, THEN conjunct2, THEN mp, OF conjI[OF nopan pos(2)],
              THEN conjunct2, THEN mp, OF div(2), THEN conjunct1, THEN mp, OF edge(2)]
  note w7 = pointer_down_order[OF img, THEN conjunct2, THEN mp, OF conjI[OF nopan pos(3)],
              THEN conjunct2, THEN mp, OF div(3), THEN conjunct2, THEN mp, OF edge(3),
              THEN conjunct2, THEN mp, OF modes(1), THEN conjunct2, THEN mp, OF modes(2),
              THEN conjunct2, THEN mp, OF modes(3)]
  have e1: "detectEdge exampleConfig [?g] (Some ''g'') (50, 0) = Inr (Some EdgeN)"
    using edge(1) by (simp add: idleCanvas_def)
  show ?thesis
    using w1 w2 w3 w7 e1
    by (simp add: mouseAt_def idleCanvas_def resizingCanvas_def gridElement_def newElement_def)
qed

text \<open>
  In icon placement mode with a toolbar selected, a pointer-down outside the toolbar
  neither places an icon nor starts a draw: the state is unchanged.
\<close>

theorem pointer_down_order_counterexample:
  "handleMouseDown iconConfig (mouseAt 500 500)
     (idleCanvas [newElement ''tb'' ''toolbar'' (box 0 0 100 100)] (Some ''tb''))
   = Inr (idleCanvas [newElement ''tb'' ''toolbar'' (box 0 0 100 100)] (Some ''tb'')) \<and>
   \<not> insideBBox (500, 500) (box 0 0 100 100) \<and>
   \<not> isDrawing (idleCanvas [newElement ''tb'' ''toolbar'' (box 0 0 100 100)] (Some ''tb'')) \<and>
   emitted (idleCanvas [newElement ''tb'' ''toolbar'' (box 0 0 100 100)] (Some ''tb'')) = []"
  by (simp add: iconConfig_def isIconContainer_def eval_defs)

end
